theory Spec2Isabelle
  imports Main "HOL-Library.Sublist" "HOL-Library.List_Lexorder" "HOL-Library.Char_ord"
begin

section \<open>The Docker version manager helper (dvm-helper.go)\<close>

text \<open>
  The helper is a single-threaded command line program: every command reads and changes
  the file system under the managed root, the process environment and the terminal, and
  may end the process through \<open>die\<close>. The model passes one \<open>world\<close> value through
  every function. Strings are byte strings, as Go's are.
\<close>

subsection \<open>Exit codes\<close>

definition retCodeInvalidArgument :: nat where
  "retCodeInvalidArgument = 127"

definition retCodeInvalidOperation :: nat where
  "retCodeInvalidOperation = 3"

definition retCodeRuntimeError :: nat where
  "retCodeRuntimeError = 1"

subsection \<open>Characters\<close>

definition isDigit :: "char \<Rightarrow> bool" where
  "isDigit c = (c \<in> set ''0123456789'')"

definition isNonZeroDigit :: "char \<Rightarrow> bool" where
  "isNonZeroDigit c = (c \<in> set ''123456789'')"

definition isLetter :: "char \<Rightarrow> bool" where
  "isLetter c = (c \<in> set ''abcdefghijklmnopqrstuvwxyzABCDEFGHIJKLMNOPQRSTUVWXYZ'')"

definition isAscii :: "char \<Rightarrow> bool" where
  "isAscii c = ((of_char c :: nat) < 128)"

definition newline :: char where
  "newline = CHR 0x0A"

text \<open>
  \<open>strings.TrimSpace\<close> removes the leading and trailing white space of Unicode. These
  are the UTF-8 encodings of the code points \<open>unicode.IsSpace\<close> accepts: the six of
  ASCII, U+0085, U+00A0, U+1680, U+2000 to U+200A, U+2028, U+2029, U+202F, U+205F and
  U+3000. A byte sequence that is not valid UTF-8 is no white space and stops the
  trimming.
\<close>

definition spaceEncodings :: "string list" where
  "spaceEncodings =
     [[CHR 0x09], [CHR 0x0A], [CHR 0x0B], [CHR 0x0C], [CHR 0x0D], [CHR 0x20],
      [CHR 0xC2, CHR 0x85], [CHR 0xC2, CHR 0xA0], [CHR 0xE1, CHR 0x9A, CHR 0x80],
      [CHR 0xE2, CHR 0x80, CHR 0x80], [CHR 0xE2, CHR 0x80, CHR 0x81],
      [CHR 0xE2, CHR 0x80, CHR 0x82], [CHR 0xE2, CHR 0x80, CHR 0x83],
      [CHR 0xE2, CHR 0x80, CHR 0x84], [CHR 0xE2, CHR 0x80, CHR 0x85],
      [CHR 0xE2, CHR 0x80, CHR 0x86], [CHR 0xE2, CHR 0x80, CHR 0x87],
      [CHR 0xE2, CHR 0x80, CHR 0x88], [CHR 0xE2, CHR 0x80, CHR 0x89],
      [CHR 0xE2, CHR 0x80, CHR 0x8A], [CHR 0xE2, CHR 0x80, CHR 0xA8],
      [CHR 0xE2, CHR 0x80, CHR 0xA9], [CHR 0xE2, CHR 0x80, CHR 0xAF],
      [CHR 0xE2, CHR 0x81, CHR 0x9F], [CHR 0xE3, CHR 0x80, CHR 0x80]]"

text \<open>The length of the encoding the string starts with, and 0 when it starts with none.\<close>

definition leadingSpace :: "string list \<Rightarrow> string \<Rightarrow> nat" where
  "leadingSpace encs s =
     (case List.find (\<lambda>e. take (length e) s = e) encs of
        None \<Rightarrow> 0
      | Some e \<Rightarrow> length e)"

function trimLeft :: "string list \<Rightarrow> string \<Rightarrow> string" where
  "trimLeft encs s =
     (if leadingSpace encs s = 0 \<or> s = [] then s
      else trimLeft encs (drop (leadingSpace encs s) s))"
  by pat_completeness auto
termination
  by (relation "measure (\<lambda>(encs, s). length s)") auto

text \<open>The trailing white space is the leading white space of the reversed string.\<close>

definition trimSpace :: "string \<Rightarrow> string" where
  "trimSpace s =
     rev (trimLeft (map rev spaceEncodings) (rev (trimLeft spaceEncodings s)))"

text \<open>A number as \<open>fmt\<close> prints it for the verb \<open>%s\<close>, which is not the verb of an int.\<close>

function showNat :: "nat \<Rightarrow> string" where
  "showNat n =
     (if n < 10 then [char_of (48 + n)]
      else showNat (n div 10) @ [char_of (48 + n mod 10)])"
  by pat_completeness auto
termination
  by (relation "measure id") auto

definition badVerbInt :: "nat \<Rightarrow> string" where
  "badVerbInt n = ''%!s(int='' @ showNat n @ '')''"

subsection \<open>Paths and the file system\<close>

text \<open>
  A path is held as the list of its components below the file system root, already
  cleaned: \<open>/home/u/.dvm\<close> is \<open>[''home'', ''u'', ''.dvm'']\<close>. The file system
  is a tree; a regular file carries its executable bit and its contents.
\<close>

type_synonym path = "string list"

datatype node = File bool string | Dir "(string \<times> node) list"

fun lookup :: "node \<Rightarrow> path \<Rightarrow> node option" where
  "lookup n [] = Some n"
| "lookup n (s # p) =
     (case n of
        File x c \<Rightarrow> None
      | Dir cs \<Rightarrow> (case map_of cs s of None \<Rightarrow> None | Some c \<Rightarrow> lookup c p))"

text \<open>\<open>os.Stat\<close> succeeds: the path names a file or a directory.\<close>

definition pathExists :: "node \<Rightarrow> path \<Rightarrow> bool" where
  "pathExists t p = (lookup t p \<noteq> None)"

definition isDir :: "node \<Rightarrow> path \<Rightarrow> bool" where
  "isDir t p = (case lookup t p of Some (Dir cs) \<Rightarrow> True | _ \<Rightarrow> False)"

text \<open>The names in a directory, sorted as \<open>Readdirnames\<close> followed by \<open>sort.Strings\<close>.\<close>

definition dirNames :: "node \<Rightarrow> path \<Rightarrow> string list" where
  "dirNames t p =
     (case lookup t p of Some (Dir cs) \<Rightarrow> sort (remdups (map fst cs)) | _ \<Rightarrow> [])"

text \<open>\<open>os.RemoveAll\<close>: the path and everything below it go; a missing path is no error.\<close>

fun removeAll :: "node \<Rightarrow> path \<Rightarrow> node" where
  "removeAll n [] = Dir []"
| "removeAll n [s] =
     (case n of
        File x c \<Rightarrow> n
      | Dir cs \<Rightarrow> Dir (filter (\<lambda>e. fst e \<noteq> s) cs))"
| "removeAll n (s # p) =
     (case n of
        File x c \<Rightarrow> n
      | Dir cs \<Rightarrow> Dir (map (\<lambda>e. if fst e = s then (fst e, removeAll (snd e) p) else e) cs))"

text \<open>
  Writing a file creates the missing parent directories and replaces an existing file.
  It fails (\<open>None\<close>) when a parent is a regular file or the target is a directory.
\<close>

fun putFile :: "node option \<Rightarrow> path \<Rightarrow> bool \<Rightarrow> string \<Rightarrow> node option" where
  "putFile n [] x c =
     (case n of Some (Dir cs) \<Rightarrow> None | _ \<Rightarrow> Some (File x c))"
| "putFile n (s # p) x c =
     (case n of
        Some (File y d) \<Rightarrow> None
      | None \<Rightarrow>
          (case putFile None p x c of None \<Rightarrow> None | Some k \<Rightarrow> Some (Dir [(s, k)]))
      | Some (Dir cs) \<Rightarrow>
          (case putFile (map_of cs s) p x c of
             None \<Rightarrow> None
           | Some k \<Rightarrow> Some (Dir ((s, k) # filter (\<lambda>e. fst e \<noteq> s) cs))))"

text \<open>
  \<open>filepath.Join\<close> of a cleaned base and one more element: the element is split at
  the separator, empty and \<open>.\<close> components are dropped and \<open>..\<close> steps up.
\<close>

fun splitOn :: "char \<Rightarrow> string \<Rightarrow> string list" where
  "splitOn d [] = [[]]"
| "splitOn d (c # cs) =
     (if c = d then [] # splitOn d cs
      else (case splitOn d cs of [] \<Rightarrow> [[c]] | x # xs \<Rightarrow> (c # x) # xs))"

definition joinStep :: "path \<Rightarrow> string \<Rightarrow> path" where
  "joinStep base s =
     (if s = [] \<or> s = ''.'' then base
      else if s = ''..'' then butlast base
      else base @ [s])"

definition joinPath :: "path \<Rightarrow> string \<Rightarrow> path" where
  "joinPath base elem = foldl joinStep base (splitOn (CHR ''/'') elem)"

text \<open>\<open>filepath.Base\<close>: the last component, and the separator for the root.\<close>

definition baseName :: "path \<Rightarrow> string" where
  "baseName p = (if p = [] then ''/'' else last p)"

subsection \<open>The world\<close>

text \<open>
  What the helper prints: \<open>writeInfo\<close>, \<open>writeWarning\<close>, the green line of
  \<open>color.Green\<close>, the one message \<open>die\<close> prints before it ends the process, and
  the report of the Go runtime when the program panics. Debug-level notices
  (\<open>writeDebug\<close>) are not recorded.
\<close>

datatype event = Info string | Warning string | Green string | Fatal string | Panic string

text \<open>
  The answer of GitHub's tag list for docker/docker, and of the latest dvm release: the
  error, the status code of the response, and the names. The go-github client returns no
  response at all (a nil pointer, \<open>None\<close> here) when the request fails in transport.
  A tag or a release that is returned carries its name.
\<close>

record tagsResponse =
  tagsErr :: bool
  tagsStatus :: "nat option"
  tagNames :: "string list"

record releaseResponse =
  releaseErr :: "string option"
  releaseStatus :: "nat option"
  releaseTagName :: string

text \<open>
  The globals of the program (\<open>dvmDir\<close>, \<open>shell\<close>, \<open>dvmVersion\<close> and the
  platform constants of the build), the process environment, the file system, what was
  printed, and the collaborators outside the program: GitHub, the download mirror, the
  docker binaries (\<open>dockerV\<close> maps a binary's contents to what it prints for \<open>-v\<close>)
  and the parts of the regexp, glob and semver libraries that are not modelled here
  (\<open>semverError\<close> is the error of \<open>semver.Make\<close>, \<open>semverCompare\<close> the result of
  \<open>Compare\<close> on two versions that parse).
\<close>

record world =
  dvmDir :: path
  shell :: string
  dvmVersion :: string
  binaryFileExt :: string
  dockerOS :: string
  dockerArch :: string
  envDockerVersion :: string
  envPath :: "path list"
  fs :: node
  printed :: "event list"
  githubTags :: tagsResponse
  githubRelease :: releaseResponse
  fetch :: "string \<Rightarrow> string option"
  dockerV :: "string \<Rightarrow> string"
  regexpValid :: "string \<Rightarrow> bool"
  regexpOther :: "string \<Rightarrow> string \<Rightarrow> bool"
  globOther :: "path \<Rightarrow> path list"
  goGlobOther :: "string \<Rightarrow> string \<Rightarrow> bool"
  semverError :: "string \<Rightarrow> string option"
  semverCompare :: "string \<Rightarrow> string \<Rightarrow> int"
  buildPathScript :: "string \<Rightarrow> path list \<Rightarrow> string"

text \<open>
  A function that may call \<open>die\<close> either ends the process with an exit code or
  returns its value; both carry the world they leave behind.
\<close>

datatype 'a outcome = Died nat world | Returned 'a world

definition writeInfo :: "string \<Rightarrow> world \<Rightarrow> world" where
  "writeInfo s w = w\<lparr>printed := printed w @ [Info s]\<rparr>"

definition writeWarning :: "string \<Rightarrow> world \<Rightarrow> world" where
  "writeWarning s w = w\<lparr>printed := printed w @ [Warning s]\<rparr>"

definition colorGreen :: "string \<Rightarrow> world \<Rightarrow> world" where
  "colorGreen s w = w\<lparr>printed := printed w @ [Green s]\<rparr>"

text \<open>
  Modelled from the spec: \<open>die\<close> is not in the source file. A fatal error prints one
  user-facing message and terminates the process with the exit code it is given.
\<close>

definition die :: "string \<Rightarrow> nat \<Rightarrow> world \<Rightarrow> 'a outcome" where
  "die message exitCode w = Died exitCode (w\<lparr>printed := printed w @ [Fatal message]\<rparr>)"

text \<open>
  Reading a field through a nil pointer is a run-time panic: the Go runtime reports it and
  the process ends with exit status 2.
\<close>

definition retCodePanic :: nat where
  "retCodePanic = 2"

definition goPanic :: "world \<Rightarrow> 'a outcome" where
  "goPanic w =
     Died retCodePanic
       (w\<lparr>printed := printed w
          @ [Panic ''runtime error: invalid memory address or nil pointer dereference'']\<rparr>)"

text \<open>
  Modelled from the spec: \<open>writeFile\<close> is not in the source file. It stores the
  contents at the path, creating parent directories as needed; a failure is fatal with
  \<open>RuntimeError\<close>.
\<close>

definition writeFile :: "path \<Rightarrow> string \<Rightarrow> world \<Rightarrow> unit outcome" where
  "writeFile p contents w =
     (case putFile (Some (fs w)) p False contents of
        None \<Rightarrow> die ''Unable to write file.'' retCodeRuntimeError w
      | Some t \<Rightarrow> Returned () (w\<lparr>fs := t\<rparr>))"

text \<open>\<open>ioutil.ReadFile\<close> with its error dropped: the contents, or nothing.\<close>

definition readFile :: "world \<Rightarrow> path \<Rightarrow> string" where
  "readFile w p = (case lookup (fs w) p of Some (File x c) \<Rightarrow> c | _ \<Rightarrow> [])"

text \<open>
  A Go function that returns \<open>(string, error)\<close> is an option here: \<open>None\<close> is the
  error, and a caller that drops the error reads the empty string.
\<close>

definition orEmpty :: "string option \<Rightarrow> string" where
  "orEmpty r = (case r of None \<Rightarrow> [] | Some s \<Rightarrow> s)"

subsection \<open>Paths of the managed root\<close>

definition getDvmDir :: "world \<Rightarrow> path" where
  "getDvmDir w = dvmDir w"

definition getVersionDir :: "world \<Rightarrow> string \<Rightarrow> path" where
  "getVersionDir w version = joinPath (dvmDir w @ [''bin'', ''docker'']) version"

definition getAliasPath :: "world \<Rightarrow> string \<Rightarrow> path" where
  "getAliasPath w aliasName = joinPath (dvmDir w @ [''alias'']) aliasName"

definition getBinaryName :: "world \<Rightarrow> string" where
  "getBinaryName w = ''docker'' @ binaryFileExt w"

definition getDockerVersionVar :: "world \<Rightarrow> string" where
  "getDockerVersionVar w = trimSpace (envDockerVersion w)"

definition aliasExists :: "world \<Rightarrow> string \<Rightarrow> bool" where
  "aliasExists w aliasName = pathExists (fs w) (getAliasPath w aliasName)"

definition buildDvmOutputScriptPath :: "world \<Rightarrow> path" where
  "buildDvmOutputScriptPath w =
     (let fileExtension =
        (if shell w = ''powershell'' then ''ps1''
         else if shell w = ''cmd'' then ''cmd''
         else ''sh'')
      in joinPath (joinPath (dvmDir w) ''.tmp'') (''dvm-output.'' @ fileExtension))"

definition writePathScript :: "world \<Rightarrow> unit outcome" where
  "writePathScript w =
     (let scriptPath = buildDvmOutputScriptPath w;
          contents = buildPathScript w (shell w) (envPath w)
      in writeFile scriptPath contents w)"

subsection \<open>The PATH\<close>

text \<open>
  Modelled from the spec: \<open>removePath\<close>, \<open>getCleanDvmPathRegex\<close> and
  \<open>prependPath\<close> are not in the source file. \<open>removePrevious\<close> strips every PATH
  entry that lies under the managed bin root, by a structural predicate on the entry, and
  keeps the other entries in their order; \<open>prepend\<close> puts the version directory in
  front of the remaining entries.
\<close>

definition underManagedBinRoot :: "world \<Rightarrow> path \<Rightarrow> bool" where
  "underManagedBinRoot w p = strict_prefix (dvmDir w @ [''bin'', ''docker'']) p"

definition removePath :: "(path \<Rightarrow> bool) \<Rightarrow> world \<Rightarrow> world" where
  "removePath managed w = w\<lparr>envPath := filter (\<lambda>p. \<not> managed p) (envPath w)\<rparr>"

definition removePreviousDvmVersionFromPath :: "world \<Rightarrow> world" where
  "removePreviousDvmVersionFromPath w = removePath (underManagedBinRoot w) w"

definition prependPath :: "path \<Rightarrow> world \<Rightarrow> world" where
  "prependPath p w = w\<lparr>envPath := p # envPath w\<rparr>"

definition prependDvmVersionToPath :: "string \<Rightarrow> world \<Rightarrow> world" where
  "prependDvmVersionToPath version w = prependPath (getVersionDir w version) w"

text \<open>
  \<open>exec.LookPath("docker")\<close>: the first PATH entry that holds an executable regular
  file named docker, with the extension of the platform's executables (none on Unix).
\<close>

definition isExecutable :: "node \<Rightarrow> path \<Rightarrow> bool" where
  "isExecutable t p = (case lookup t p of Some (File x c) \<Rightarrow> x | _ \<Rightarrow> False)"

definition lookPath :: "world \<Rightarrow> path option" where
  "lookPath w =
     List.find (isExecutable (fs w)) (map (\<lambda>d. d @ [getBinaryName w]) (envPath w))"

subsection \<open>The regular expressions\<close>

text \<open>
  The pattern \<open>^Docker version (.*),\<close> of \<open>getDockerVersion\<close>, applied to the whole
  output: the text must start with the literal, and the greedy group runs to the last
  comma of the first line (the dot does not match a line feed). The result is the group.
\<close>

definition dockerVersionRegex :: "string \<Rightarrow> string option" where
  "dockerVersionRegex raw =
     (if take 15 raw = ''Docker version '' then
        (let line = takeWhile (\<lambda>c. c \<noteq> newline) (drop 15 raw)
         in if CHR '','' \<in> set line
            then Some (rev (tl (dropWhile (\<lambda>c. c \<noteq> CHR '','') (rev line))))
            else None)
      else None)"

text \<open>
  The pattern \<open>^v([1-9]+\.\d+\.\d+)$\<close> of \<open>getAvailableVersions\<close>: the letter v,
  one or more of the digits 1 to 9, a dot, one or more digits, a dot, one or more digits,
  and the end of the text. The result is the group, the text after the v.
\<close>

definition versionRegex :: "string \<Rightarrow> string option" where
  "versionRegex s =
     (case s of
        [] \<Rightarrow> None
      | c # r \<Rightarrow>
          if c \<noteq> CHR ''v'' then None
          else
            (let major = takeWhile isNonZeroDigit r; r1 = dropWhile isNonZeroDigit r
             in if major = [] then None
                else
                  (case r1 of
                     [] \<Rightarrow> None
                   | d1 # r2 \<Rightarrow>
                       if d1 \<noteq> CHR ''.'' then None
                       else
                         (let minor = takeWhile isDigit r2; r3 = dropWhile isDigit r2
                          in if minor = [] then None
                             else
                               (case r3 of
                                  [] \<Rightarrow> None
                                | d2 # r4 \<Rightarrow>
                                    if d2 = CHR ''.'' \<and> r4 \<noteq> [] \<and> list_all isDigit r4
                                    then Some r
                                    else None)))))"

text \<open>
  \<open>regexp.Compile\<close> of a user pattern followed by \<open>MatchString\<close>, an unanchored
  search. Two parts of the syntax are modelled: a pattern of letters, digits, hyphens,
  underscores and dots, where a dot matches any byte of an ASCII text but the line feed;
  and a pattern that starts with a repetition operator, which does not compile. Every
  other pattern, and every text outside ASCII, is left to the world.
\<close>

definition regexpPlain :: "string \<Rightarrow> bool" where
  "regexpPlain p =
     list_all (\<lambda>c. isDigit c \<or> isLetter c \<or> c \<in> set ''-_.'') p"

fun dotMatchHere :: "string \<Rightarrow> string \<Rightarrow> bool" where
  "dotMatchHere [] s = True"
| "dotMatchHere (p # ps) [] = False"
| "dotMatchHere (p # ps) (c # cs) =
     ((if p = CHR ''.'' then c \<noteq> newline else c = p) \<and> dotMatchHere ps cs)"

fun dotSearch :: "string \<Rightarrow> string \<Rightarrow> bool" where
  "dotSearch p [] = dotMatchHere p []"
| "dotSearch p (c # cs) = (dotMatchHere p (c # cs) \<or> dotSearch p cs)"

definition regexpCompile :: "world \<Rightarrow> string \<Rightarrow> (string \<Rightarrow> bool) option" where
  "regexpCompile w p =
     (if regexpPlain p
      then Some (\<lambda>s. if list_all isAscii s then dotSearch p s else regexpOther w p s)
      else if take 1 p \<in> set [''*'', ''+'', ''?''] then None
      else if regexpValid w p then Some (regexpOther w p)
      else None)"

subsection \<open>Globbing\<close>

text \<open>
  \<open>filepath.Glob\<close>. A pattern without metacharacters is its own match when it exists.
  Otherwise the last component is matched against the names of every directory the
  pattern's directory part stands for. The star, which matches any run of bytes of a
  name, is modelled; a pattern with \<open>?\<close>, \<open>[\<close> or a backslash is left to the world.
\<close>

definition hasStar :: "string \<Rightarrow> bool" where
  "hasStar s = (CHR ''*'' \<in> set s)"

definition hasOtherMeta :: "string \<Rightarrow> bool" where
  "hasOtherMeta s = list_ex (\<lambda>c. c \<in> set [CHR ''?'', CHR ''['', CHR 0x5C]) s"

fun starMatch :: "string \<Rightarrow> string \<Rightarrow> bool" where
  "starMatch [] s = (s = [])"
| "starMatch (p # ps) [] = (p = CHR ''*'' \<and> starMatch ps [])"
| "starMatch (p # ps) (c # cs) =
     (if p = CHR ''*'' then starMatch ps (c # cs) \<or> starMatch (p # ps) cs
      else c = p \<and> starMatch ps cs)"

definition globDir :: "world \<Rightarrow> path \<Rightarrow> string \<Rightarrow> path list" where
  "globDir w dir pattern =
     (if isDir (fs w) dir
      then map (\<lambda>n. dir @ [n]) (filter (starMatch pattern) (dirNames (fs w) dir))
      else [])"

function filepathGlob :: "world \<Rightarrow> path \<Rightarrow> path list" where
  "filepathGlob w pattern =
     (if list_ex hasOtherMeta pattern then globOther w pattern
      else if \<not> list_ex hasStar pattern
      then (if pathExists (fs w) pattern then [pattern] else [])
      else
        (let dir = butlast pattern; file = last pattern;
             dirs = (if list_ex hasStar dir then filepathGlob w dir else [dir])
         in concat (map (\<lambda>d. globDir w d file) dirs)))"
  by pat_completeness auto
termination
  by (relation "measure (\<lambda>(w, pattern). length pattern)") (auto simp: list_ex_iff dest!: in_set_butlastD length_pos_if_in_set)

text \<open>
  \<open>glob.Glob\<close> of the go-glob library: a pattern without a star matches only itself
  and the lone star matches everything; the other patterns are left to the world.
\<close>

definition goGlob :: "world \<Rightarrow> string \<Rightarrow> string \<Rightarrow> bool" where
  "goGlob w pattern subj =
     (if \<not> hasStar pattern then subj = pattern
      else if pattern = ''*'' then True
      else goGlobOther w pattern subj)"

subsection \<open>Which docker is active\<close>

definition getCurrentDockerPath :: "world \<Rightarrow> path option" where
  "getCurrentDockerPath w = lookPath w"

text \<open>
  \<open>exec.Command(dockerPath, "-v").Output()\<close> with its error dropped: what the binary
  prints, and nothing when the path is not an executable file.
\<close>

definition commandOutput :: "world \<Rightarrow> path \<Rightarrow> string" where
  "commandOutput w dockerPath =
     (case lookup (fs w) dockerPath of
        Some (File x c) \<Rightarrow> (if x then dockerV w c else [])
      | _ \<Rightarrow> [])"

definition getDockerVersion :: "world \<Rightarrow> path \<Rightarrow> string option" where
  "getDockerVersion w dockerPath =
     (let rawVersion = commandOutput w dockerPath
      in dockerVersionRegex rawVersion)"

text \<open>
  \<open>getSystemDockerPath\<close> strips the managed entries from the PATH, looks docker up
  and puts the original PATH back; the world it leaves is the one it was given.
\<close>

definition getSystemDockerPath :: "world \<Rightarrow> path option" where
  "getSystemDockerPath w = lookPath (removePreviousDvmVersionFromPath w)"

definition getSystemDockerVersion :: "world \<Rightarrow> string option" where
  "getSystemDockerVersion w =
     (case getSystemDockerPath w of
        None \<Rightarrow> None
      | Some systemDockerPath \<Rightarrow> getDockerVersion w systemDockerPath)"

text \<open>The path is returned whether or not \<open>os.Stat\<close> finds it; the flag is the error.\<close>

definition getExperimentalDockerPath :: "world \<Rightarrow> path \<times> bool" where
  "getExperimentalDockerPath w =
     (let experimentalVersionPath =
        joinPath (getVersionDir w ''experimental'') (getBinaryName w)
      in (experimentalVersionPath, \<not> pathExists (fs w) experimentalVersionPath))"

definition getExperimentalDockerVersion :: "world \<Rightarrow> string option" where
  "getExperimentalDockerVersion w =
     (case getExperimentalDockerPath w of
        (experimentalVersionPath, err) \<Rightarrow>
          if err then None else getDockerVersion w experimentalVersionPath)"

definition getCurrentDockerVersion :: "world \<Rightarrow> string option" where
  "getCurrentDockerVersion w =
     (case getCurrentDockerPath w of
        None \<Rightarrow> None
      | Some currentDockerPath \<Rightarrow>
          (let current0 = orEmpty (getDockerVersion w currentDockerPath);
               systemDockerPath = getSystemDockerPath w;
               current1 =
                 (if Some currentDockerPath = systemDockerPath
                  then ''system ('' @ current0 @ '')'' else current0);
               experimentalVersionPath = fst (getExperimentalDockerPath w);
               current2 =
                 (if currentDockerPath = experimentalVersionPath
                  then ''experimental ('' @ current1 @ '')'' else current1)
           in Some current2))"

definition current :: "world \<Rightarrow> world" where
  "current w =
     (case getCurrentDockerVersion w of
        None \<Rightarrow> writeWarning ''N/A'' w
      | Some c \<Rightarrow> writeInfo c w)"

subsection \<open>Installed versions\<close>

definition installedLabel :: "world \<Rightarrow> path \<Rightarrow> string list" where
  "installedLabel w versionDir =
     (let version = baseName versionDir
      in if version = ''experimental''
         then (case getExperimentalDockerVersion w of
                 None \<Rightarrow> []
               | Some experimentalVersion \<Rightarrow>
                   [''experimental ('' @ experimentalVersion @ '')''])
         else [version])"

definition getInstalledVersions :: "world \<Rightarrow> string \<Rightarrow> string list" where
  "getInstalledVersions w pattern =
     (let versions = filepathGlob w (getVersionDir w pattern);
          results = concat (map (installedLabel w) versions);
          results' =
            (if goGlob w pattern ''system''
             then (case getSystemDockerVersion w of
                     Some systemVersion \<Rightarrow> results @ [''system ('' @ systemVersion @ '')'']
                   | None \<Rightarrow> results)
             else results)
      in sort results')"

definition isVersionInstalled :: "world \<Rightarrow> string \<Rightarrow> bool" where
  "isVersionInstalled w version =
     (let installedVersions = getInstalledVersions w version
      in length installedVersions > 0)"

definition listLine :: "string \<Rightarrow> world \<Rightarrow> string \<Rightarrow> world" where
  "listLine currentVersion w version =
     (if currentVersion = version
      then colorGreen (''->'' @ [CHR 0x09] @ version) w
      else writeInfo ([CHR 0x09] @ version) w)"

definition list :: "world \<Rightarrow> string \<Rightarrow> world" where
  "list w pattern0 =
     (let pattern = pattern0 @ ''*'';
          versions = getInstalledVersions w pattern;
          currentVersion = orEmpty (getCurrentDockerVersion w)
      in foldl (listLine currentVersion) w versions)"

subsection \<open>The remote catalog\<close>

text \<open>
  \<open>warnWhenRateLimitExceeded\<close> reads the status code of the response without asking
  whether there is a response, so it panics after a transport failure.
\<close>

definition warnWhenRateLimitExceeded :: "bool \<Rightarrow> nat option \<Rightarrow> world \<Rightarrow> unit outcome" where
  "warnWhenRateLimitExceeded err response w =
     (if \<not> err then Returned () w
      else
        (case response of
           None \<Rightarrow> goPanic w
         | Some statusCode \<Rightarrow>
             if statusCode = 403
             then Returned () (writeWarning ''Your GitHub API rate limit has been exceeded. Set the GITHUB_TOKEN environment variable or use the --github-token parameter with your GitHub personal access token to authenticate and increase the rate limit.'' w)
             else Returned () w))"

definition tagVersion :: "(string \<Rightarrow> bool) \<Rightarrow> string \<Rightarrow> string list" where
  "tagVersion patternRegex version =
     (case versionRegex version of
        None \<Rightarrow> []
      | Some m \<Rightarrow> if patternRegex version then [m] else [])"

definition getAvailableVersions :: "world \<Rightarrow> string \<Rightarrow> string list outcome" where
  "getAvailableVersions w pattern =
     (let r = githubTags w
      in if tagsErr r
         then
           (case warnWhenRateLimitExceeded True (tagsStatus r) w of
              Died c w1 \<Rightarrow> Died c w1
            | Returned u w1 \<Rightarrow>
                die ''Unable to retrieve list of Docker tags from GitHub'' retCodeRuntimeError w1)
         else
           (case tagsStatus r of
              None \<Rightarrow> goPanic w
            | Some statusCode \<Rightarrow>
                if statusCode \<noteq> 200
                then die (''Unable to retrieve list of Docker tags from GitHub (Status ''
                            @ badVerbInt statusCode @ '').'') retCodeRuntimeError w
                else
                  (case regexpCompile w pattern of
                     None \<Rightarrow> die ''Invalid pattern.'' retCodeInvalidOperation w
                   | Some patternRegex \<Rightarrow>
                       Returned (sort (concat (map (tagVersion patternRegex) (tagNames r)))) w)))"

definition versionExists :: "world \<Rightarrow> string \<Rightarrow> bool outcome" where
  "versionExists w version =
     (if version = ''experimental'' then Returned True w
      else
        (case getAvailableVersions w version of
           Died c w' \<Rightarrow> Died c w'
         | Returned availableVersions w' \<Rightarrow> Returned (version \<in> set availableVersions) w'))"

subsection \<open>Install, use and uninstall\<close>

definition buildDownloadURL :: "world \<Rightarrow> string \<Rightarrow> string" where
  "buildDownloadURL w version0 =
     (let mirrorURL =
        (if version0 = ''experimental'' then ''https://experimental.docker.com/builds''
         else ''https://get.docker.com/builds'');
          version = (if version0 = ''experimental'' then ''latest'' else version0)
      in mirrorURL @ ''/'' @ dockerOS w @ ''/'' @ dockerArch w @ ''/docker-'' @ version
           @ binaryFileExt w)"

text \<open>
  Modelled from the spec: \<open>downloadFileWithChecksum\<close> is not in the source file. It
  performs a checksum-verified download into the target path, creating parent directories
  as needed; a download or checksum failure is fatal with \<open>RuntimeError\<close>.
\<close>

definition downloadFileWithChecksum :: "string \<Rightarrow> path \<Rightarrow> world \<Rightarrow> unit outcome" where
  "downloadFileWithChecksum url binaryPath w =
     (case fetch w url of
        None \<Rightarrow> die ''Unable to download the file.'' retCodeRuntimeError w
      | Some c \<Rightarrow>
          (case putFile (Some (fs w)) binaryPath True c of
             None \<Rightarrow> die ''Unable to write the file.'' retCodeRuntimeError w
           | Some t \<Rightarrow> Returned () (w\<lparr>fs := t\<rparr>)))"

text \<open>
  \<open>install\<close> ends by calling \<open>use\<close>, which calls \<open>ensureVersionIsInstalled\<close>,
  which calls \<open>install\<close> again when the version is not reported as installed. Nothing
  in the program bounds this chain, so the three functions take fuel: every call spends
  one unit and \<open>None\<close> says the fuel ran out. Each body is written once, with the
  function it calls as its first argument, and the three are tied together below.
\<close>

definition installBody ::
  "(string \<Rightarrow> world \<Rightarrow> unit outcome option) \<Rightarrow> string \<Rightarrow> world \<Rightarrow> unit outcome option" where
  "installBody useCall version0 w =
     (let version = (if version0 = [] then getDockerVersionVar w else version0)
      in if version = []
         then Some (die ''The install command requires that a version is specified or the DOCKER_VERSION environment variable is set.'' retCodeInvalidArgument w)
         else
           (case versionExists w version of
              Died c w1 \<Rightarrow> Some (Died c w1)
            | Returned found w1 \<Rightarrow>
                if \<not> found
                then Some (die (''Version '' @ version @ '' not found - try `dvm ls-remote` to browse available versions.'') retCodeInvalidOperation w1)
                else
                  (let versionDir = getVersionDir w1 version;
                       w2 = (if version = ''experimental'' \<and> pathExists (fs w1) versionDir
                             then w1\<lparr>fs := removeAll (fs w1) versionDir\<rparr> else w1)
                   in if pathExists (fs w2) versionDir
                      then useCall version (writeWarning (version @ '' is already installed'') w2)
                      else
                        (let w3 = writeInfo (''Installing '' @ version @ ''...'') w2;
                             url = buildDownloadURL w3 version;
                             binaryPath = joinPath (joinPath (joinPath (getDvmDir w3) ''bin/docker'') version) (getBinaryName w3)
                         in case downloadFileWithChecksum url binaryPath w3 of
                              Died c w4 \<Rightarrow> Some (Died c w4)
                            | Returned u w4 \<Rightarrow> useCall version w4))))"

definition useBody ::
  "(string \<Rightarrow> world \<Rightarrow> unit outcome option) \<Rightarrow> string \<Rightarrow> world \<Rightarrow> unit outcome option" where
  "useBody ensureCall version0 w =
     (let version = (if version0 = [] then getDockerVersionVar w else version0)
      in if version = []
         then Some (die ''The use command requires that a version is specified or the DOCKER_VERSION environment variable is set.'' retCodeInvalidOperation w)
         else if version = ''system''
         then
           (case getSystemDockerVersion w of
              None \<Rightarrow> Some (die ''System version of Docker not found.'' retCodeInvalidOperation w)
            | Some systemDockerVersion \<Rightarrow>
                (let w1 = removePreviousDvmVersionFromPath w;
                     w2 = writeInfo (''Now using system version of Docker: '' @ systemDockerVersion) w1
                 in Some (writePathScript w2)))
         else
           (let version' = (if aliasExists w version then readFile w (getAliasPath w version) else version)
            in case ensureCall version' w of
                 None \<Rightarrow> None
               | Some (Died c w1) \<Rightarrow> Some (Died c w1)
               | Some (Returned u w1) \<Rightarrow>
                   (let w2 = removePreviousDvmVersionFromPath w1;
                        w3 = prependDvmVersionToPath version' w2
                    in case writePathScript w3 of
                         Died c w4 \<Rightarrow> Some (Died c w4)
                       | Returned u' w4 \<Rightarrow>
                           Some (Returned () (writeInfo (''Now using Docker '' @ version') w4)))))"

definition ensureBody ::
  "(string \<Rightarrow> world \<Rightarrow> unit outcome option) \<Rightarrow> string \<Rightarrow> world \<Rightarrow> unit outcome option" where
  "ensureBody installCall version w =
     (if isVersionInstalled w version then Some (Returned () w)
      else installCall version (writeInfo (version @ '' is not installed. Installing now...'') w))"

fun install :: "nat \<Rightarrow> string \<Rightarrow> world \<Rightarrow> unit outcome option"
  and use :: "nat \<Rightarrow> string \<Rightarrow> world \<Rightarrow> unit outcome option"
  and ensureVersionIsInstalled :: "nat \<Rightarrow> string \<Rightarrow> world \<Rightarrow> unit outcome option"
where
  "install 0 version w = None"
| "install (Suc n) version w = installBody (use n) version w"
| "use 0 version w = None"
| "use (Suc n) version w = useBody (ensureVersionIsInstalled n) version w"
| "ensureVersionIsInstalled 0 version w = None"
| "ensureVersionIsInstalled (Suc n) version w = ensureBody (install n) version w"

definition uninstall :: "world \<Rightarrow> string \<Rightarrow> unit outcome" where
  "uninstall w version =
     (if version = []
      then die ''The uninstall command requires that a version is specified.'' retCodeInvalidArgument w
      else
        (let currentVersion = orEmpty (getCurrentDockerVersion w)
         in if currentVersion = version
            then die ''Cannot uninstall the currently active Docker version.'' retCodeInvalidOperation w
            else
              (let versionDir = getVersionDir w version
               in if \<not> pathExists (fs w) versionDir
                  then Returned () (writeWarning (version @ '' is not installed.'') w)
                  else Returned () (writeInfo (''Uninstalled Docker '' @ version @ ''.'')
                         (w\<lparr>fs := removeAll (fs w) versionDir\<rparr>)))))"

subsection \<open>Aliases\<close>

definition aliasCmd :: "world \<Rightarrow> string \<Rightarrow> string \<Rightarrow> unit outcome" where
  "aliasCmd w aliasName version =
     (if aliasName = [] \<or> version = []
      then die ''The alias command requires both an alias name and a version.'' retCodeInvalidArgument w
      else if \<not> isVersionInstalled w version
      then die (''The aliased version, '' @ version @ '', is not installed.'') retCodeInvalidArgument w
      else
        (let aliasPath = getAliasPath w aliasName
         in case writeFile aliasPath version w of
              Died c w1 \<Rightarrow> Died c w1
            | Returned u w1 \<Rightarrow>
                Returned () (writeInfo (''Aliased '' @ aliasName @ '' to '' @ version @ ''.'') w1)))"

subsection \<open>Self upgrade\<close>

definition isUpgradeAvailable :: "world \<Rightarrow> (bool \<times> string) outcome" where
  "isUpgradeAvailable w =
     (let r = githubRelease w
      in case releaseErr r of
           Some err \<Rightarrow>
             (case warnWhenRateLimitExceeded True (releaseStatus r) w of
                Died c w1 \<Rightarrow> Died c w1
              | Returned u w1 \<Rightarrow>
                  Returned (False, [])
                    (writeWarning err
                       (writeWarning ''Unable to query the latest dvm release from GitHub:'' w1)))
         | None \<Rightarrow>
             (case releaseStatus r of
                None \<Rightarrow> goPanic w
              | Some statusCode \<Rightarrow>
                  if statusCode \<noteq> 200
                  then Returned (False, [])
                         (writeWarning (''Unable to query the latest dvm release from GitHub (Status ''
                            @ badVerbInt statusCode @ ''):'') w)
                  else
                    (case semverError w (dvmVersion w) of
                       Some e \<Rightarrow>
                         Returned (False, [])
                           (writeWarning e
                              (writeWarning ''Unable to parse the current dvm version as a semantic version!'' w))
                     | None \<Rightarrow>
                         (case semverError w (releaseTagName r) of
                            Some e \<Rightarrow>
                              Returned (False, [])
                                (writeWarning e
                                   (writeWarning ''Unable to parse the latest dvm version as a semantic version!'' w))
                          | None \<Rightarrow>
                              Returned
                                (semverCompare w (releaseTagName r) (dvmVersion w) > 0,
                                 releaseTagName r) w))))"

text \<open>
  \<open>upgradeSelf\<close>, the download and replacement of the running tool, is not in the
  source file; \<open>upgrade\<close> takes it as a parameter.
\<close>

definition upgrade ::
  "(string \<Rightarrow> world \<Rightarrow> unit outcome) \<Rightarrow> world \<Rightarrow> bool \<Rightarrow> string \<Rightarrow> unit outcome" where
  "upgrade upgradeSelf w checkOnly version0 =
     (if version0 \<noteq> [] \<and> dvmVersion w = version0
      then Returned () (writeWarning (''dvm '' @ version0 @ '' is already installed.'') w)
      else
        (case (if version0 = []
               then (case isUpgradeAvailable w of
                       Died c w1 \<Rightarrow> Inl (Died c w1)
                     | Returned (shouldUpgrade, latestVersion) w1 \<Rightarrow>
                         if \<not> shouldUpgrade
                         then Inl (Returned ()
                                (writeInfo ''The latest version of dvm is already installed.'' w1))
                         else Inr (latestVersion, w1))
               else Inr (version0, w)) of
           Inl ended \<Rightarrow> ended
         | Inr (version, w1) \<Rightarrow>
             if checkOnly
             then Returned () (writeInfo (''dvm '' @ version @ '' is available. Run `dvm upgrade` to install the latest version.'') w1)
             else upgradeSelf version (writeInfo (''Upgrading to dvm '' @ version @ ''...'') w1)))"

subsection \<open>Reading an outcome\<close>

fun exitCode :: "'a outcome \<Rightarrow> nat option" where
  "exitCode (Died c w) = Some c"
| "exitCode (Returned v w) = None"

fun worldAfter :: "'a outcome \<Rightarrow> world" where
  "worldAfter (Died c w) = w"
| "worldAfter (Returned v w) = w"

subsection \<open>Example worlds\<close>

text \<open>
  A managed root \<open>/dvm\<close> with the experimental build and two releases installed, a
  system docker in \<open>/usr/bin\<close>, and the experimental build first on the PATH. The
  parts of the libraries that the model leaves to the world accept nothing here; the
  only one the examples reach is the go-glob match of \<open>1.1*\<close> and \<open>exp*\<close>
  against \<open>system\<close>, which the library refuses as well.
\<close>

definition exFs :: node where
  "exFs =
     Dir [(''dvm'',
           Dir [(''bin'',
                 Dir [(''docker'',
                       Dir [(''experimental'', Dir [(''docker'', File True ''E'')]),
                            (''1.10.0'', Dir [(''docker'', File True ''A'')]),
                            (''1.1.0'', Dir [(''docker'', File True ''B'')])])])]),
          (''usr'', Dir [(''bin'', Dir [(''docker'', File True ''S'')])])]"

definition exDockerV :: "string \<Rightarrow> string" where
  "exDockerV c =
     (if c = ''E'' then ''Docker version 1.11.0-dev, build 6e5d3a5''
      else if c = ''A'' then ''Docker version 1.10.0, build 590d5108''
      else if c = ''B'' then ''Docker version 1.1.0, build 0d03096''
      else if c = ''S'' then ''Docker version 1.9.1, build a34a1d5''
      else [])"

definition exWorld :: world where
  "exWorld =
     \<lparr>dvmDir = [''dvm''], shell = ''bash'', dvmVersion = ''0.2.0'', binaryFileExt = [],
      dockerOS = ''Linux'', dockerArch = ''x86_64'', envDockerVersion = [],
      envPath = [[''dvm'', ''bin'', ''docker'', ''experimental''], [''usr'', ''bin'']],
      fs = exFs, printed = [],
      githubTags =
        \<lparr>tagsErr = False, tagsStatus = Some 200,
         tagNames = [''v1.9.1'', ''v10.0.0'', ''v1.10.0'', ''v0.9.0'']\<rparr>,
      githubRelease =
        \<lparr>releaseErr = None, releaseStatus = Some 200, releaseTagName = ''0.3.0''\<rparr>,
      fetch = (\<lambda>u. None), dockerV = exDockerV,
      regexpValid = (\<lambda>p. False), regexpOther = (\<lambda>p s. False),
      globOther = (\<lambda>p. []), goGlobOther = (\<lambda>p s. False),
      semverError = (\<lambda>s. None), semverCompare = (\<lambda>a b. 1),
      buildPathScript = (\<lambda>sh ps. ''export PATH'')\<rparr>"

text \<open>The same machine with only the system docker on the PATH, printing no version line.\<close>

definition exBrokenWorld :: world where
  "exBrokenWorld =
     exWorld\<lparr>envPath := [[''usr'', ''bin'']], dockerV := (\<lambda>c. ''docker: cannot run'')\<rparr>"

text \<open>
  The same machine after an interrupted experimental install: the version directory is
  there, the binary is not, and only the system docker is on the PATH.
\<close>

definition exHalfFs :: node where
  "exHalfFs =
     Dir [(''dvm'',
           Dir [(''bin'',
                 Dir [(''docker'',
                       Dir [(''experimental'', Dir []),
                            (''1.10.0'', Dir [(''docker'', File True ''A'')])])])]),
          (''usr'', Dir [(''bin'', Dir [(''docker'', File True ''S'')])])]"

definition exHalfWorld :: world where
  "exHalfWorld = exWorld\<lparr>envPath := [[''usr'', ''bin'']], fs := exHalfFs\<rparr>"

text \<open>The same machine without a network: the requests to GitHub fail in transport.\<close>

definition exOfflineWorld :: world where
  "exOfflineWorld =
     exWorld\<lparr>githubTags := \<lparr>tagsErr = True, tagsStatus = None, tagNames = []\<rparr>,
       githubRelease :=
         \<lparr>releaseErr = Some ''dial tcp: lookup api.github.com: no such host'',
          releaseStatus = None, releaseTagName = []\<rparr>\<rparr>"

subsection \<open>Notions the properties use\<close>

text \<open>
  A plain name is a single path component without glob metacharacters; a plain root is a
  managed root none of whose components has one.
\<close>

definition plainName :: "string \<Rightarrow> bool" where
  "plainName v =
     (v \<noteq> [] \<and> v \<noteq> ''.'' \<and> v \<noteq> ''..'' \<and> CHR ''/'' \<notin> set v
      \<and> \<not> hasStar v \<and> \<not> hasOtherMeta v)"

definition plainRoot :: "world \<Rightarrow> bool" where
  "plainRoot w = (\<not> list_ex hasStar (dvmDir w) \<and> \<not> list_ex hasOtherMeta (dvmDir w))"

text \<open>The characters of the group of the version pattern: digits and dots.\<close>

definition versionChar :: "char \<Rightarrow> bool" where
  "versionChar c = (isDigit c \<or> c = CHR ''.'')"

text \<open>
  The line \<open>list\<close> prints for a label, the lines one call of \<open>list\<close> adds to
  what was printed before, and that the line of a label is among them.
\<close>

definition listEvent :: "string \<Rightarrow> string \<Rightarrow> event" where
  "listEvent currentVersion version =
     (if currentVersion = version then Green (''->'' @ [CHR 0x09] @ version)
      else Info ([CHR 0x09] @ version))"

definition listing :: "world \<Rightarrow> string \<Rightarrow> event list" where
  "listing w pattern = drop (length (printed w)) (printed (list w pattern))"

definition listed :: "world \<Rightarrow> string \<Rightarrow> string \<Rightarrow> bool" where
  "listed w pattern label =
     (Info ([CHR 0x09] @ label) \<in> set (listing w pattern)
      \<or> Green (''->'' @ [CHR 0x09] @ label) \<in> set (listing w pattern))"

section \<open>Properties\<close>

subsection \<open>Frame lemmas\<close>

lemma writeInfo_frame: "(writeInfo s w)\<lparr>printed := p\<rparr> = w\<lparr>printed := p\<rparr>"
  by (simp add: writeInfo_def)

lemma writeWarning_frame: "(writeWarning s w)\<lparr>printed := p\<rparr> = w\<lparr>printed := p\<rparr>"
  by (simp add: writeWarning_def)

lemma warnWhenRateLimitExceeded_frame:
  "(worldAfter (warnWhenRateLimitExceeded e r w))\<lparr>printed := p\<rparr> = w\<lparr>printed := p\<rparr>"
  by (cases r) (simp_all add: warnWhenRateLimitExceeded_def goPanic_def writeWarning_frame)

lemma warnWhenRateLimitExceeded_exit:
  "exitCode (warnWhenRateLimitExceeded True r w) = (if r = None then Some retCodePanic else None)"
  by (cases r) (simp_all add: warnWhenRateLimitExceeded_def goPanic_def)

lemma isUpgradeAvailable_frame:
  "(worldAfter (isUpgradeAvailable w))\<lparr>printed := p\<rparr> = w\<lparr>printed := p\<rparr>"
proof (cases "releaseErr (githubRelease w)")
  case None
  show ?thesis
  proof (cases "releaseStatus (githubRelease w)")
    case nil: None
    then show ?thesis
      using None by (simp add: isUpgradeAvailable_def Let_def goPanic_def)
  next
    case (Some statusCode)
    then show ?thesis
      using None
      by (cases "semverError w (dvmVersion w)";
          cases "semverError w (releaseTagName (githubRelease w))")
         (simp_all add: isUpgradeAvailable_def Let_def writeWarning_frame)
  qed
next
  case (Some err)
  let ?r = "warnWhenRateLimitExceeded True (releaseStatus (githubRelease w)) w"
  have f: "(worldAfter ?r)\<lparr>printed := p\<rparr> = w\<lparr>printed := p\<rparr>"
    by (rule warnWhenRateLimitExceeded_frame)
  show ?thesis
    using Some f by (cases ?r) (simp_all add: isUpgradeAvailable_def Let_def writeWarning_frame)
qed

lemma isUpgradeAvailable_exit:
  "exitCode (isUpgradeAvailable w)
     = (if releaseStatus (githubRelease w) = None then Some retCodePanic else None)"
proof (cases "releaseErr (githubRelease w)")
  case None
  show ?thesis
  proof (cases "releaseStatus (githubRelease w)")
    case nil: None
    then show ?thesis
      using None by (simp add: isUpgradeAvailable_def Let_def goPanic_def)
  next
    case (Some statusCode)
    then show ?thesis
      using None
      by (cases "semverError w (dvmVersion w)";
          cases "semverError w (releaseTagName (githubRelease w))")
         (simp_all add: isUpgradeAvailable_def Let_def)
  qed
next
  case (Some err)
  let ?r = "warnWhenRateLimitExceeded True (releaseStatus (githubRelease w)) w"
  have x: "exitCode ?r = (if releaseStatus (githubRelease w) = None then Some retCodePanic else None)"
    by (rule warnWhenRateLimitExceeded_exit)
  show ?thesis
    using Some x by (cases ?r) (simp_all add: isUpgradeAvailable_def Let_def split: if_splits)
qed

lemma lookup_putFile: "putFile n p x c = Some t \<Longrightarrow> lookup t p = Some (File x c)"
proof (induction p arbitrary: n t)
  case Nil
  then show ?case
    by (auto split: option.splits node.splits)
next
  case (Cons s p)
  then show ?case
    by (auto split: option.splits node.splits)
qed

subsection \<open>The file system\<close>

lemma map_of_removeAll_step:
  "map_of (map (\<lambda>e. if fst e = s then (fst e, f (snd e)) else e) cs) s
     = map_option f (map_of cs s)"
  by (induction cs) auto

lemma map_of_filter_out: "map_of (filter (\<lambda>e. fst e \<noteq> s) cs) s = None"
  by (induction cs) auto

lemma lookup_removeAll: "p \<noteq> [] \<Longrightarrow> lookup (removeAll t p) p = None"
proof (induction p arbitrary: t)
  case Nil
  then show ?case by simp
next
  case (Cons s p)
  show ?case
  proof (cases p)
    case Nil
    then show ?thesis
      by (cases t) (simp_all add: map_of_filter_out)
  next
    case deeper: (Cons v va)
    note step = map_of_removeAll_step [where f = "\<lambda>c. removeAll c (v # va)"]
    from deeper have ih: "\<And>c. lookup (removeAll c (v # va)) (v # va) = None"
      using Cons.IH by simp
    show ?thesis
    proof (cases t)
      case (File x c)
      then show ?thesis
        by (simp add: deeper)
    next
      case (Dir cs)
      show ?thesis
      proof (cases "map_of cs s")
        case None
        then show ?thesis
          by (simp add: Dir deeper step)
      next
        case (Some c)
        then show ?thesis
          using ih [of c] by (simp add: Dir deeper step)
      qed
    qed
  qed
qed

subsection \<open>The version pattern and the pattern of the caller\<close>

lemma versionRegex_shape:
  assumes "versionRegex t = Some m"
  shows "t = CHR ''v'' # m \<and> list_all versionChar m"
proof -
  from assms obtain r2 r4 where t: "t = CHR ''v'' # m"
    and d1: "dropWhile isNonZeroDigit m = CHR ''.'' # r2"
    and d2: "dropWhile isDigit r2 = CHR ''.'' # r4"
    and d3: "list_all isDigit r4"
    by (auto simp: versionRegex_def Let_def split: list.splits if_splits)
  have nz: "\<And>c. isNonZeroDigit c \<Longrightarrow> versionChar c"
    by (auto simp: isNonZeroDigit_def isDigit_def versionChar_def)
  have a: "list_all versionChar (takeWhile isNonZeroDigit m)"
    by (auto simp: list_all_iff dest: set_takeWhileD intro: nz)
  have b: "list_all versionChar (takeWhile isDigit r2)"
    by (auto simp: list_all_iff versionChar_def dest: set_takeWhileD)
  have c: "list_all versionChar r4"
    using d3 by (auto simp: list_all_iff versionChar_def)
  have e2: "r2 = takeWhile isDigit r2 @ CHR ''.'' # r4"
    using takeWhile_dropWhile_id [of isDigit r2] d2 by simp
  have "list_all versionChar (takeWhile isDigit r2 @ CHR ''.'' # r4)"
    using b c by (simp add: versionChar_def)
  then have r2: "list_all versionChar r2"
    by (subst e2)
  have e1: "m = takeWhile isNonZeroDigit m @ CHR ''.'' # r2"
    using takeWhile_dropWhile_id [of isNonZeroDigit m] d1 by simp
  have "list_all versionChar (takeWhile isNonZeroDigit m @ CHR ''.'' # r2)"
    using a r2 by (simp add: versionChar_def)
  then have "list_all versionChar m"
    by (subst e1)
  then show ?thesis
    using t by simp
qed

lemma versionChar_plain: "list_all versionChar m \<Longrightarrow> regexpPlain m"
  by (auto simp: list_all_iff regexpPlain_def versionChar_def)

lemma versionChar_ascii: "versionChar c \<Longrightarrow> isAscii c"
  by (auto simp: versionChar_def isDigit_def isAscii_def)

lemma v_ascii: "isAscii (CHR ''v'')"
  by (simp add: isAscii_def)

lemma versionChar_newline: "versionChar c \<Longrightarrow> c \<noteq> newline"
  by (auto simp: versionChar_def isDigit_def newline_def)

lemma dotMatchHere_self: "newline \<notin> set p \<Longrightarrow> dotMatchHere p (p @ s)"
  by (induction p) auto

lemma dotSearch_here: "dotMatchHere p s \<Longrightarrow> dotSearch p s"
  by (cases s) auto

lemma dotSearch_tail: "newline \<notin> set p \<Longrightarrow> dotSearch p (c # p)"
  using dotMatchHere_self [of p "[]"] dotSearch_here [of p p] by simp

lemma dotSearch_empty: "dotSearch [] s"
  by (cases s) auto

lemma own_tag_matches:
  assumes "versionRegex t = Some m" "regexpCompile w m = Some rx"
  shows "rx t"
proof -
  have t: "t = CHR ''v'' # m" and vc: "list_all versionChar m"
    using versionRegex_shape [OF assms(1)] by simp_all
  have plain: "regexpPlain m"
    using versionChar_plain [OF vc] .
  have ascii: "list_all isAscii t"
    using vc t v_ascii by (auto simp: list_all_iff dest: versionChar_ascii)
  have nl: "newline \<notin> set m"
    using vc by (auto simp: list_all_iff dest: versionChar_newline)
  have "rx = (\<lambda>s. if list_all isAscii s then dotSearch m s else regexpOther w m s)"
    using assms(2) plain by (simp add: regexpCompile_def)
  then show ?thesis
    using ascii t dotSearch_tail [OF nl] by simp
qed

lemma every_tag_matches_empty:
  assumes "versionRegex t = Some m" "regexpCompile w [] = Some rx"
  shows "rx t"
proof -
  have t: "t = CHR ''v'' # m" and vc: "list_all versionChar m"
    using versionRegex_shape [OF assms(1)] by simp_all
  have ascii: "list_all isAscii t"
    using vc t v_ascii by (auto simp: list_all_iff dest: versionChar_ascii)
  have "rx = (\<lambda>s. if list_all isAscii s then dotSearch [] s else regexpOther w [] s)"
    using assms(2) by (simp add: regexpCompile_def regexpPlain_def)
  then show ?thesis
    using ascii dotSearch_empty by simp
qed

lemma regexpCompile_empty: "regexpCompile w [] \<noteq> None"
  by (simp add: regexpCompile_def regexpPlain_def)

lemma in_tagVersion: "v \<in> set (tagVersion rx t) = (versionRegex t = Some v \<and> rx t)"
  by (cases "versionRegex t") (auto simp: tagVersion_def)

lemma in_tagVersions:
  "v \<in> set (concat (map (tagVersion rx) tags))
     = (\<exists>t \<in> set tags. versionRegex t = Some v \<and> rx t)"
  by (auto simp: in_tagVersion)

lemma getAvailableVersions_fetched:
  assumes "\<not> tagsErr (githubTags w)" "tagsStatus (githubTags w) = Some 200"
  shows "getAvailableVersions w pattern =
    (case regexpCompile w pattern of
       None \<Rightarrow> die ''Invalid pattern.'' retCodeInvalidOperation w
     | Some rx \<Rightarrow> Returned (sort (concat (map (tagVersion rx) (tagNames (githubTags w))))) w)"
  using assms by (simp add: getAvailableVersions_def)

lemma getAvailableVersions_Returned:
  assumes "getAvailableVersions w pattern = Returned vs w'"
  shows "\<exists>rx. vs = sort (concat (map (tagVersion rx) (tagNames (githubTags w))))"
proof (cases "tagsErr (githubTags w)")
  case True
  then show ?thesis
    using assms
    by (cases "warnWhenRateLimitExceeded True (tagsStatus (githubTags w)) w")
       (simp_all add: getAvailableVersions_def die_def)
next
  case False
  show ?thesis
  proof (cases "tagsStatus (githubTags w)")
    case None
    then show ?thesis
      using assms False by (simp add: getAvailableVersions_def goPanic_def)
  next
    case (Some statusCode)
    then show ?thesis
      using assms False
      by (cases "regexpCompile w pattern")
         (auto simp: getAvailableVersions_def die_def split: if_splits)
  qed
qed

lemma exWorld_catalog:
  "getAvailableVersions exWorld [] = Returned [''1.10.0'', ''1.9.1''] exWorld"
  by (simp add: getAvailableVersions_def exWorld_def versionRegex_def tagVersion_def
      regexpCompile_def regexpPlain_def isNonZeroDigit_def isDigit_def isAscii_def)

lemma zero_in_major:
  "CHR ''0'' \<in> set (takeWhile (\<lambda>c. c \<noteq> CHR ''.'') r)
     \<Longrightarrow> \<exists>c cs. dropWhile isNonZeroDigit r = c # cs \<and> c \<noteq> CHR ''.''"
  by (induction r) (auto simp: isNonZeroDigit_def split: if_splits)

lemma versionRegex_zero_major:
  assumes "CHR ''0'' \<in> set (takeWhile (\<lambda>c. c \<noteq> CHR ''.'') m)"
  shows "versionRegex (CHR ''v'' # m) = None"
proof -
  obtain c cs where "dropWhile isNonZeroDigit m = c # cs" "c \<noteq> CHR ''.''"
    using zero_in_major [OF assms] by auto
  then show ?thesis
    by (simp add: versionRegex_def Let_def)
qed

subsection \<open>Uninstalling the active version\<close>

lemma experimentalDir: "getVersionDir w ''experimental'' = dvmDir w @ [''bin'', ''docker'', ''experimental'']"
  by (simp add: getVersionDir_def joinPath_def joinStep_def)

lemma active_experimental_label:
  assumes "getCurrentDockerPath w = Some (fst (getExperimentalDockerPath w))"
  shows "\<exists>x. getCurrentDockerVersion w = Some (''experimental ('' @ x @ '')'')"
  using assms by (simp add: getCurrentDockerVersion_def Let_def)

text \<open>
  C1. Uninstalling the currently active version must fail with \<open>InvalidOperation\<close> and
  leave the install directory intact, also for \<open>experimental\<close>. The code does the
  opposite for \<open>experimental\<close>: in every world where the docker found on the PATH is
  the binary of the experimental build, \<open>uninstall\<close> of \<open>experimental\<close> returns
  normally and the version directory is gone afterwards. The label the guard compares
  with is \<open>experimental (<probed version>)\<close>, never the bare version name.
\<close>

theorem uninstall_active_experimental:
  assumes "getCurrentDockerPath w = Some (fst (getExperimentalDockerPath w))"
  shows "exitCode (uninstall w ''experimental'') = None
    \<and> \<not> pathExists (fs (worldAfter (uninstall w ''experimental'')))
          (getVersionDir w ''experimental'')"
proof -
  obtain x where x: "getCurrentDockerVersion w = Some (''experimental ('' @ x @ '')'')"
    using active_experimental_label [OF assms] by auto
  have ne: "orEmpty (getCurrentDockerVersion w) \<noteq> ''experimental''"
    by (simp add: x orEmpty_def)
  have gone: "lookup (removeAll (fs w) (getVersionDir w ''experimental''))
      (getVersionDir w ''experimental'') = None"
    by (rule lookup_removeAll) (simp add: experimentalDir)
  show ?thesis
    using ne gone
    by (simp add: uninstall_def Let_def writeWarning_def writeInfo_def pathExists_def)
qed

theorem uninstall_active_experimental_witness:
  "getCurrentDockerPath exWorld = Some (fst (getExperimentalDockerPath exWorld))
   \<and> getCurrentDockerVersion exWorld = Some ''experimental (1.11.0-dev)''
   \<and> pathExists (fs exWorld) (getVersionDir exWorld ''experimental'')
   \<and> exitCode (uninstall exWorld ''experimental'') = None
   \<and> \<not> pathExists (fs (worldAfter (uninstall exWorld ''experimental'')))
         (getVersionDir exWorld ''experimental'')"
proof -
  have a: "getCurrentDockerPath exWorld = Some (fst (getExperimentalDockerPath exWorld))"
    by code_simp
  have l: "getCurrentDockerVersion exWorld = Some ''experimental (1.11.0-dev)''"
    by code_simp
  have e: "pathExists (fs exWorld) (getVersionDir exWorld ''experimental'')"
    by code_simp
  show ?thesis
    using a l e uninstall_active_experimental [OF a] by simp
qed

subsection \<open>The catalog filter\<close>

text \<open>
  C2. Every tag \<open>vMAJOR.MINOR.PATCH\<close> with MAJOR at least 1 must be kept, so also a
  major version of 10 or more. The code drops every tag whose major number has the digit
  0 in it, since the major part of the version pattern admits only the digits 1 to 9: the
  pattern rejects the tag, and no call of \<open>getAvailableVersions\<close> reports its version.
  Of the tags \<open>v1.9.1\<close>, \<open>v10.0.0\<close>, \<open>v1.10.0\<close> and \<open>v0.9.0\<close> the catalog
  keeps \<open>1.10.0\<close> and \<open>1.9.1\<close>.
\<close>

theorem getAvailableVersions_drops_zero_major:
  assumes "CHR ''0'' \<in> set (takeWhile (\<lambda>c. c \<noteq> CHR ''.'') m)"
  shows "versionRegex (CHR ''v'' # m) = None
    \<and> (\<forall>vs w'. getAvailableVersions w pattern = Returned vs w' \<longrightarrow> m \<notin> set vs)"
proof (intro conjI allI impI)
  show none: "versionRegex (CHR ''v'' # m) = None"
    using versionRegex_zero_major [OF assms] .
  fix vs w'
  assume r: "getAvailableVersions w pattern = Returned vs w'"
  show "m \<notin> set vs"
  proof
    assume "m \<in> set vs"
    then obtain rx where
      "m \<in> set (sort (concat (map (tagVersion rx) (tagNames (githubTags w)))))"
      using getAvailableVersions_Returned [OF r] by auto
    then obtain t where "versionRegex t = Some m"
      unfolding set_sort in_tagVersions by blast
    then show False
      using versionRegex_shape [of t m] none by simp
  qed
qed

theorem getAvailableVersions_drops_zero_major_witness:
  "CHR ''0'' \<in> set (takeWhile (\<lambda>c. c \<noteq> CHR ''.'') ''10.0.0'')
   \<and> ''v10.0.0'' \<in> set (tagNames (githubTags exWorld))
   \<and> versionRegex ''v10.0.0'' = None
   \<and> versionRegex ''v0.9.0'' = None
   \<and> versionRegex ''v1.10.0'' = Some ''1.10.0''
   \<and> getAvailableVersions exWorld [] = Returned [''1.10.0'', ''1.9.1''] exWorld
   \<and> ''10.0.0'' \<notin> set [''1.10.0'', ''1.9.1'']"
proof -
  have z: "CHR ''0'' \<in> set (takeWhile (\<lambda>c. c \<noteq> CHR ''.'') ''10.0.0'')"
    by simp
  have t: "''v10.0.0'' \<in> set (tagNames (githubTags exWorld))"
    by (simp add: exWorld_def)
  have o: "versionRegex ''v0.9.0'' = None" "versionRegex ''v1.10.0'' = Some ''1.10.0''"
    by (simp_all add: versionRegex_def isNonZeroDigit_def isDigit_def)
  show ?thesis
    using z t o exWorld_catalog getAvailableVersions_drops_zero_major [OF z, of exWorld "[]"]
    by simp
qed

subsection \<open>The empty version token\<close>

text \<open>
  C3. With an empty token \<open>install\<close> and \<open>use\<close> both take the \<open>DOCKER_VERSION\<close>
  fallback. When that is empty too, \<open>install\<close> ends with \<open>InvalidArgument\<close> (127) but
  \<open>use\<close> ends with \<open>InvalidOperation\<close> (3), not the \<open>InvalidArgument\<close> the
  specification asks of both.
\<close>

theorem empty_version_token:
  "install (Suc n) [] w = install (Suc n) (getDockerVersionVar w) w
   \<and> use (Suc n) [] w = use (Suc n) (getDockerVersionVar w) w
   \<and> (getDockerVersionVar w = [] \<longrightarrow>
        map_option exitCode (install (Suc n) [] w) = Some (Some retCodeInvalidArgument)
        \<and> map_option exitCode (use (Suc n) [] w) = Some (Some retCodeInvalidOperation))"
  by (simp add: installBody_def useBody_def die_def Let_def)

theorem empty_version_token_witness:
  "getDockerVersionVar exWorld = []
   \<and> map_option exitCode (install (Suc 0) [] exWorld) = Some (Some 127)
   \<and> map_option exitCode (use (Suc 0) [] exWorld) = Some (Some 3)"
proof -
  have e: "getDockerVersionVar exWorld = []"
    by code_simp
  show ?thesis
    using e empty_version_token [of 0 exWorld]
    by (simp add: retCodeInvalidArgument_def retCodeInvalidOperation_def)
qed

subsection \<open>Plain names under the managed root\<close>

lemma splitOn_none: "d \<notin> set s \<Longrightarrow> splitOn d s = [s]"
  by (induction s) auto

lemma joinPath_component:
  "CHR ''/'' \<notin> set s \<Longrightarrow> s \<noteq> [] \<Longrightarrow> s \<noteq> ''.'' \<Longrightarrow> s \<noteq> ''..'' \<Longrightarrow> joinPath base s = base @ [s]"
  by (simp add: joinPath_def splitOn_none joinStep_def)

lemma getVersionDir_plain:
  "plainName v \<Longrightarrow> getVersionDir w v = dvmDir w @ [''bin'', ''docker'', v]"
  by (simp add: getVersionDir_def plainName_def joinPath_component)

lemma binRoot_plain:
  "plainRoot w \<Longrightarrow> \<not> list_ex hasStar (dvmDir w @ [''bin'', ''docker''])
     \<and> \<not> list_ex hasOtherMeta (dvmDir w @ [''bin'', ''docker''])"
  by (simp add: plainRoot_def hasStar_def hasOtherMeta_def)

lemma filepathGlob_plain:
  assumes "plainRoot w" "plainName v"
  shows "filepathGlob w (dvmDir w @ [''bin'', ''docker'', v])
    = (if pathExists (fs w) (dvmDir w @ [''bin'', ''docker'', v])
       then [dvmDir w @ [''bin'', ''docker'', v]] else [])"
proof -
  have "\<not> list_ex hasStar (dvmDir w @ [''bin'', ''docker'', v])"
    "\<not> list_ex hasOtherMeta (dvmDir w @ [''bin'', ''docker'', v])"
    using assms by (simp_all add: plainRoot_def plainName_def hasStar_def hasOtherMeta_def)
  then show ?thesis
    by simp
qed

lemma goGlob_plain: "\<not> hasStar v \<Longrightarrow> goGlob w v s = (s = v)"
  by (simp add: goGlob_def)

lemma installed_plain_name:
  assumes "plainRoot w" "plainName v"
  shows "isVersionInstalled w v =
    (if v = ''experimental''
     then pathExists (fs w) (dvmDir w @ [''bin'', ''docker'', v])
          \<and> getExperimentalDockerVersion w \<noteq> None
     else if v = ''system''
     then pathExists (fs w) (dvmDir w @ [''bin'', ''docker'', v])
          \<or> getSystemDockerVersion w \<noteq> None
     else pathExists (fs w) (dvmDir w @ [''bin'', ''docker'', v]))"
proof -
  have star: "\<not> hasStar v"
    using assms(2) by (simp add: plainName_def)
  show ?thesis
    unfolding isVersionInstalled_def getInstalledVersions_def Let_def
      getVersionDir_plain [OF assms(2)] filepathGlob_plain [OF assms]
      goGlob_plain [OF star]
    by (auto simp: installedLabel_def baseName_def split: option.splits)
qed

subsection \<open>Aliases point at installed versions\<close>

text \<open>
  C4, as the specification states it, fails: an installed version is a directory of the
  managed bin root, and \<open>alias\<close> asks \<open>isVersionInstalled\<close> instead. So
  \<open>alias sys system\<close> returns and persists a record, because a system docker
  answers, and \<open>alias g 1.*\<close> does, because the version is used as a glob pattern that
  the installed releases match; neither record names a version directory.
\<close>

theorem alias_system_and_glob:
  "\<not> pathExists (fs exWorld) (getVersionDir exWorld ''system'')
   \<and> exitCode (aliasCmd exWorld ''sys'' ''system'') = None
   \<and> readFile (worldAfter (aliasCmd exWorld ''sys'' ''system'')) (getAliasPath exWorld ''sys'')
       = ''system''
   \<and> \<not> pathExists (fs exWorld) (getVersionDir exWorld ''1.*'')
   \<and> exitCode (aliasCmd exWorld ''g'' ''1.*'') = None
   \<and> readFile (worldAfter (aliasCmd exWorld ''g'' ''1.*'')) (getAliasPath exWorld ''g'')
       = ''1.*''"
  by code_simp

text \<open>
  C4, amended. \<open>alias\<close> fails with \<open>InvalidArgument\<close> whenever
  \<open>isVersionInstalled\<close> does not hold of the version, and a call that fails leaves
  the file system as it was. Under a plain managed root and for every plain version name
  other than \<open>system\<close>, it therefore fails with \<open>InvalidArgument\<close> whenever
  \<open><root>/bin/docker/<version>\<close> does not exist, and a call that returns has found
  that path and has written a record that holds the version. This is so for every alias
  name.
\<close>

theorem alias_requires_installed:
  "(\<not> isVersionInstalled w version \<longrightarrow>
      (\<exists>m. aliasCmd w aliasName version = die m retCodeInvalidArgument w))
   \<and> (exitCode (aliasCmd w aliasName version) \<noteq> None \<longrightarrow>
        fs (worldAfter (aliasCmd w aliasName version)) = fs w)
   \<and> (plainRoot w \<and> plainName version \<and> version \<noteq> ''system'' \<longrightarrow>
        (\<not> pathExists (fs w) (dvmDir w @ [''bin'', ''docker'', version]) \<longrightarrow>
           exitCode (aliasCmd w aliasName version) = Some retCodeInvalidArgument)
        \<and> (\<forall>w'. aliasCmd w aliasName version = Returned () w' \<longrightarrow>
              pathExists (fs w) (dvmDir w @ [''bin'', ''docker'', version])
              \<and> readFile w' (getAliasPath w aliasName) = version))"
proof -
  have guard: "\<exists>m. aliasCmd w aliasName version = die m retCodeInvalidArgument w"
    if "\<not> isVersionInstalled w version"
    using that by (auto simp: aliasCmd_def)
  have frame: "fs (worldAfter (aliasCmd w aliasName version)) = fs w"
    if "exitCode (aliasCmd w aliasName version) \<noteq> None"
    using that
    by (auto simp: aliasCmd_def writeFile_def die_def Let_def split: if_splits option.splits)
  have ret: "isVersionInstalled w version \<and> readFile w' (getAliasPath w aliasName) = version"
    if r: "aliasCmd w aliasName version = Returned () w'" for w'
  proof
    show "isVersionInstalled w version"
      using r by (auto simp: aliasCmd_def die_def split: if_splits)
    from r obtain t where
      t: "putFile (Some (fs w)) (getAliasPath w aliasName) False version = Some t"
      and w': "w' = writeInfo (''Aliased '' @ aliasName @ '' to '' @ version @ ''.'') (w\<lparr>fs := t\<rparr>)"
      by (auto simp: aliasCmd_def writeFile_def die_def Let_def
          split: if_splits option.splits outcome.splits)
    have "lookup t (getAliasPath w aliasName) = Some (File False version)"
      using lookup_putFile [OF t] .
    then show "readFile w' (getAliasPath w aliasName) = version"
      by (simp add: w' readFile_def writeInfo_def)
  qed
  have dir: "pathExists (fs w) (dvmDir w @ [''bin'', ''docker'', version])"
    if "plainRoot w" "plainName version" "version \<noteq> ''system''" "isVersionInstalled w version"
    using that installed_plain_name [of w version] by (simp split: if_splits)
  have nodir: "exitCode (aliasCmd w aliasName version) = Some retCodeInvalidArgument"
    if p: "plainRoot w" "plainName version" "version \<noteq> ''system''"
      and n: "\<not> pathExists (fs w) (dvmDir w @ [''bin'', ''docker'', version])"
  proof -
    have "\<not> isVersionInstalled w version"
      using dir [OF p] n by blast
    then obtain m where "aliasCmd w aliasName version = die m retCodeInvalidArgument w"
      using guard by blast
    then show ?thesis
      by (simp add: die_def)
  qed
  show ?thesis
    using guard frame ret dir nodir by blast
qed

theorem alias_requires_installed_witness:
  "plainRoot exWorld \<and> plainName ''1.9.1'' \<and> plainName ''1.10.0''
   \<and> \<not> pathExists (fs exWorld) (dvmDir exWorld @ [''bin'', ''docker'', ''1.9.1''])
   \<and> exitCode (aliasCmd exWorld ''latest'' ''1.9.1'') = Some 127
   \<and> fs (worldAfter (aliasCmd exWorld ''latest'' ''1.9.1'')) = fs exWorld
   \<and> pathExists (fs exWorld) (dvmDir exWorld @ [''bin'', ''docker'', ''1.10.0''])
   \<and> exitCode (aliasCmd exWorld ''latest'' ''1.10.0'') = None
   \<and> readFile (worldAfter (aliasCmd exWorld ''latest'' ''1.10.0''))
        (getAliasPath exWorld ''latest'') = ''1.10.0''"
proof -
  have r: "plainRoot exWorld"
    by code_simp
  have n: "plainName ''1.9.1''" "plainName ''1.10.0''"
    by code_simp+
  have a: "\<not> pathExists (fs exWorld) (dvmDir exWorld @ [''bin'', ''docker'', ''1.9.1''])"
    by code_simp
  have b: "pathExists (fs exWorld) (dvmDir exWorld @ [''bin'', ''docker'', ''1.10.0''])"
    by code_simp
  note bad = alias_requires_installed [of exWorld "''1.9.1''" "''latest''"]
  have d: "exitCode (aliasCmd exWorld ''latest'' ''1.9.1'') = Some 127"
    using bad r n(1) a by (simp add: retCodeInvalidArgument_def)
  have f: "fs (worldAfter (aliasCmd exWorld ''latest'' ''1.9.1'')) = fs exWorld"
    using d bad by simp
  have ok: "exitCode (aliasCmd exWorld ''latest'' ''1.10.0'') = None"
    by code_simp
  then obtain w' where w': "aliasCmd exWorld ''latest'' ''1.10.0'' = Returned () w'"
    by (cases "aliasCmd exWorld ''latest'' ''1.10.0''") auto
  have "readFile w' (getAliasPath exWorld ''latest'') = ''1.10.0''"
    using w' r n(2) alias_requires_installed [of exWorld "''1.10.0''" "''latest''"] by simp
  then show ?thesis
    using r n a b d f ok w' by simp
qed

subsection \<open>Whether a version exists\<close>

text \<open>
  C5, as the specification states it, fails: a version string that does not compile as a regular
  expression, such as \<open>*\<close>, is merely absent from the catalog, yet \<open>versionExists\<close>
  ends the process with \<open>InvalidOperation\<close> instead of returning false, because it
  hands the version to \<open>getAvailableVersions\<close> as the pattern.
\<close>

theorem versionExists_invalid_pattern:
  "getAvailableVersions exWorld [] = Returned [''1.10.0'', ''1.9.1''] exWorld
   \<and> regexpCompile exWorld ''*'' = None
   \<and> versionExists exWorld ''*'' = die ''Invalid pattern.'' retCodeInvalidOperation exWorld
   \<and> exitCode (versionExists exWorld ''*'') = Some 3"
proof -
  have c: "regexpCompile exWorld ''*'' = None"
    by (simp add: regexpCompile_def regexpPlain_def isDigit_def isLetter_def)
  have t: "\<not> tagsErr (githubTags exWorld)" "tagsStatus (githubTags exWorld) = Some 200"
    by (simp_all add: exWorld_def)
  have v: "versionExists exWorld ''*'' = die ''Invalid pattern.'' retCodeInvalidOperation exWorld"
    using c by (simp add: versionExists_def getAvailableVersions_fetched [OF t] die_def)
  show ?thesis
    using exWorld_catalog c v by (simp add: die_def retCodeInvalidOperation_def)
qed

text \<open>
  C5, amended. When the tag list is fetched, \<open>getAvailableVersions("")\<close> returns, and
  for every version string that is \<open>experimental\<close> or compiles as a regular expression
  \<open>versionExists\<close> returns whether the version is \<open>experimental\<close> or a member of
  that list. For any other string it ends the process with \<open>InvalidOperation\<close>.
\<close>

theorem versionExists_catalog:
  assumes "\<not> tagsErr (githubTags w)" "tagsStatus (githubTags w) = Some 200"
  shows "\<exists>vs. getAvailableVersions w [] = Returned vs w
    \<and> versionExists w v =
        (if v = ''experimental'' \<or> regexpCompile w v \<noteq> None
         then Returned (v = ''experimental'' \<or> v \<in> set vs) w
         else die ''Invalid pattern.'' retCodeInvalidOperation w)"
proof -
  obtain rx0 where rx0: "regexpCompile w [] = Some rx0"
    using regexpCompile_empty [of w] by auto
  define vs where "vs = sort (concat (map (tagVersion rx0) (tagNames (githubTags w))))"
  have avail: "getAvailableVersions w [] = Returned vs w"
    using rx0 by (simp add: getAvailableVersions_fetched [OF assms] vs_def)
  have "v \<in> set vs
      = (\<exists>t \<in> set (tagNames (githubTags w)). versionRegex t = Some v \<and> rx0 t)"
    unfolding vs_def by (simp only: set_sort in_tagVersions)
  then have mem0:
    "v \<in> set vs = (\<exists>t \<in> set (tagNames (githubTags w)). versionRegex t = Some v)"
    using every_tag_matches_empty [OF _ rx0] by blast
  show ?thesis
  proof (cases "v = ''experimental''")
    case True
    then show ?thesis
      using avail by (simp add: versionExists_def)
  next
    case False
    show ?thesis
    proof (cases "regexpCompile w v")
      case None
      then show ?thesis
        using avail False
        by (simp add: versionExists_def getAvailableVersions_fetched [OF assms] die_def)
    next
      case (Some rx)
      have "v \<in> set (sort (concat (map (tagVersion rx) (tagNames (githubTags w)))))
          = (\<exists>t \<in> set (tagNames (githubTags w)). versionRegex t = Some v \<and> rx t)"
        by (simp only: set_sort in_tagVersions)
      then have "v \<in> set (sort (concat (map (tagVersion rx) (tagNames (githubTags w)))))
          = (\<exists>t \<in> set (tagNames (githubTags w)). versionRegex t = Some v)"
        using own_tag_matches [OF _ Some] by blast
      then show ?thesis
        using avail False Some mem0
        by (simp add: versionExists_def getAvailableVersions_fetched [OF assms])
    qed
  qed
qed

theorem versionExists_catalog_witness:
  "\<not> tagsErr (githubTags exWorld) \<and> tagsStatus (githubTags exWorld) = Some 200
   \<and> versionExists exWorld ''1.10.0'' = Returned True exWorld
   \<and> versionExists exWorld ''10.0.0'' = Returned False exWorld
   \<and> versionExists exWorld ''experimental'' = Returned True exWorld"
proof -
  have t: "\<not> tagsErr (githubTags exWorld)" "tagsStatus (githubTags exWorld) = Some 200"
    by (simp_all add: exWorld_def)
  have c: "regexpCompile exWorld ''1.10.0'' \<noteq> None" "regexpCompile exWorld ''10.0.0'' \<noteq> None"
    by (simp_all add: regexpCompile_def regexpPlain_def isDigit_def)
  have a: "versionExists exWorld ''1.10.0'' = Returned True exWorld"
    using versionExists_catalog [OF t, of "''1.10.0''"] exWorld_catalog c by simp
  have b: "versionExists exWorld ''10.0.0'' = Returned False exWorld"
    using versionExists_catalog [OF t, of "''10.0.0''"] exWorld_catalog c by simp
  have e: "versionExists exWorld ''experimental'' = Returned True exWorld"
    using versionExists_catalog [OF t, of "''experimental''"] exWorld_catalog by simp
  show ?thesis
    using t a b e by simp
qed

subsection \<open>The current version\<close>

text \<open>
  C6. When the docker on the PATH prints no parseable version, the lookup should report
  \<open>N/A\<close>. It does not: whenever a docker binary is found, \<open>getCurrentDockerVersion\<close>
  drops the error of \<open>getDockerVersion\<close>, and \<open>current\<close> prints a label built
  around the empty version as information. Only the missing binary gives the warning
  \<open>N/A\<close>.
\<close>

theorem current_unparsed_version:
  assumes "getCurrentDockerPath w = Some p" "getDockerVersion w p = None"
  shows "\<exists>s. current w = writeInfo s w
    \<and> s \<in> set ['''', ''system ()'', ''experimental ()'', ''experimental (system ())'']"
  using assms by (auto simp: current_def getCurrentDockerVersion_def Let_def orEmpty_def)

theorem current_unparsed_version_witness:
  "getCurrentDockerPath exBrokenWorld = Some [''usr'', ''bin'', ''docker'']
   \<and> getDockerVersion exBrokenWorld [''usr'', ''bin'', ''docker''] = None
   \<and> printed (current exBrokenWorld) = [Info ''system ()'']
   \<and> printed (current (exBrokenWorld\<lparr>envPath := []\<rparr>)) = [Warning ''N/A'']"
proof -
  have p: "getCurrentDockerPath exBrokenWorld = Some [''usr'', ''bin'', ''docker'']"
    by code_simp
  have v: "getDockerVersion exBrokenWorld [''usr'', ''bin'', ''docker''] = None"
    by code_simp
  have c: "printed (current exBrokenWorld) = [Info ''system ()'']"
    by code_simp
  have n: "printed (current (exBrokenWorld\<lparr>envPath := []\<rparr>)) = [Warning ''N/A'']"
    by code_simp
  show ?thesis
    using p v c n current_unparsed_version [OF p v] by simp
qed

subsection \<open>Installed means the directory exists\<close>

text \<open>
  C7, as the specification states it, fails in both directions. \<open>system\<close> is reported as
  installed because a system docker answers, though no directory of that name exists;
  and the directory of \<open>experimental\<close> exists after an interrupted install, yet the
  version is not reported as installed, because its binary cannot be probed.
\<close>

theorem isVersionInstalled_not_directory:
  "isVersionInstalled exWorld ''system''
   \<and> \<not> pathExists (fs exWorld) (getVersionDir exWorld ''system'')
   \<and> isDir (fs exHalfWorld) (getVersionDir exHalfWorld ''experimental'')
   \<and> \<not> isVersionInstalled exHalfWorld ''experimental''"
  by code_simp

text \<open>
  C7, amended. Under a plain managed root, for every plain name \<open>v\<close> other than
  \<open>system\<close> and \<open>experimental\<close>, \<open>isVersionInstalled v\<close> holds if and only if
  \<open><root>/bin/docker/<v>\<close> exists. \<open>experimental\<close> needs a binary whose version can
  be probed as well, and \<open>system\<close> is also installed when a system docker answers.
\<close>

theorem isVersionInstalled_plain:
  assumes "plainRoot w" "plainName v"
  shows "isVersionInstalled w v =
    (if v = ''experimental''
     then pathExists (fs w) (dvmDir w @ [''bin'', ''docker'', v])
          \<and> getExperimentalDockerVersion w \<noteq> None
     else if v = ''system''
     then pathExists (fs w) (dvmDir w @ [''bin'', ''docker'', v])
          \<or> getSystemDockerVersion w \<noteq> None
     else pathExists (fs w) (dvmDir w @ [''bin'', ''docker'', v]))"
  using assms by (rule installed_plain_name)

theorem isVersionInstalled_plain_witness:
  "plainRoot exWorld \<and> plainName ''1.10.0'' \<and> plainName ''1.9.1''
   \<and> pathExists (fs exWorld) [''dvm'', ''bin'', ''docker'', ''1.10.0'']
   \<and> isVersionInstalled exWorld ''1.10.0''
   \<and> \<not> pathExists (fs exWorld) [''dvm'', ''bin'', ''docker'', ''1.9.1'']
   \<and> \<not> isVersionInstalled exWorld ''1.9.1''"
proof -
  have r: "plainRoot exWorld"
    by code_simp
  have n: "plainName ''1.10.0''" "plainName ''1.9.1''"
    by code_simp+
  have d: "dvmDir exWorld = [''dvm'']"
    by (simp add: exWorld_def)
  have e: "pathExists (fs exWorld) [''dvm'', ''bin'', ''docker'', ''1.10.0'']"
    "\<not> pathExists (fs exWorld) [''dvm'', ''bin'', ''docker'', ''1.9.1'']"
    by code_simp+
  show ?thesis
    using r n e isVersionInstalled_plain [OF r n(1)] isVersionInstalled_plain [OF r n(2)]
    by (simp add: d)
qed

subsection \<open>Stripping the managed PATH entries\<close>

text \<open>
  C8. \<open>removePrevious\<close> is idempotent: stripping the managed entries twice gives the
  PATH that stripping once gives. The entries that stay are a subsequence of the PATH,
  and every entry that is not managed stays, in the order it had.
\<close>

theorem removePrevious_idempotent:
  "removePreviousDvmVersionFromPath (removePreviousDvmVersionFromPath w)
     = removePreviousDvmVersionFromPath w
   \<and> subseq (envPath (removePreviousDvmVersionFromPath w)) (envPath w)
   \<and> filter (\<lambda>p. \<not> underManagedBinRoot w p) (envPath (removePreviousDvmVersionFromPath w))
       = filter (\<lambda>p. \<not> underManagedBinRoot w p) (envPath w)"
  by (simp add: removePreviousDvmVersionFromPath_def removePath_def underManagedBinRoot_def)

subsection \<open>Checking for an upgrade\<close>

text \<open>
  C9. \<open>upgrade\<close> with \<open>checkOnly\<close> set never changes the installed state: for
  every version argument, whatever the release query answers and whatever
  \<open>upgradeSelf\<close> would do, the world it leaves differs from the one it was given in
  nothing but what was printed, so the file system, with the installed versions, the
  aliases and the tool's own binary, and the PATH are unchanged. The call returns, except
  that it panics when no version is given and the release query brings no response.
\<close>

theorem upgrade_check_only:
  "(worldAfter (upgrade upgradeSelf w True version))\<lparr>printed := printed w\<rparr> = w
   \<and> exitCode (upgrade upgradeSelf w True version)
       = (if version = [] \<and> releaseStatus (githubRelease w) = None
          then Some retCodePanic else None)"
proof (cases "version \<noteq> [] \<and> dvmVersion w = version")
  case True
  then show ?thesis
    by (simp add: upgrade_def writeWarning_frame)
next
  case False
  show ?thesis
  proof (cases "version = []")
    case True
    have f: "(worldAfter (isUpgradeAvailable w))\<lparr>printed := printed w\<rparr> = w"
      using isUpgradeAvailable_frame [where w = w and p = "printed w"] by simp
    note x = isUpgradeAvailable_exit [where w = w]
    show ?thesis
    proof (cases "isUpgradeAvailable w")
      case (Died c w1)
      then show ?thesis
        using True f x by (simp add: upgrade_def split: if_splits)
    next
      case (Returned v w1)
      obtain a b where v: "v = (a, b)"
        by (cases v) auto
      show ?thesis
        using True f x Returned v by (simp add: upgrade_def writeInfo_frame split: if_splits)
    qed
  next
    case nonempty: False
    then show ?thesis
      using False by (simp add: upgrade_def writeInfo_frame)
  qed
qed

theorem upgrade_check_only_witness:
  "(worldAfter (upgrade (\<lambda>v w. Died 1 (w\<lparr>fs := Dir []\<rparr>)) exWorld True []))
       \<lparr>printed := printed exWorld\<rparr> = exWorld
   \<and> exitCode (upgrade (\<lambda>v w. Died 1 (w\<lparr>fs := Dir []\<rparr>)) exWorld True []) = None
   \<and> (worldAfter (upgrade (\<lambda>v w. Died 1 (w\<lparr>fs := Dir []\<rparr>)) exOfflineWorld True []))
       \<lparr>printed := printed exOfflineWorld\<rparr> = exOfflineWorld
   \<and> exitCode (upgrade (\<lambda>v w. Died 1 (w\<lparr>fs := Dir []\<rparr>)) exOfflineWorld True []) = Some 2"
proof -
  have a: "releaseStatus (githubRelease exWorld) = Some 200"
    by (simp add: exWorld_def)
  have b: "releaseStatus (githubRelease exOfflineWorld) = None"
    by (simp add: exOfflineWorld_def)
  show ?thesis
    using a b
      upgrade_check_only [where upgradeSelf = "\<lambda>v w. Died 1 (w\<lparr>fs := Dir []\<rparr>)"
        and w = exWorld and version = "[]"]
      upgrade_check_only [where upgradeSelf = "\<lambda>v w. Died 1 (w\<lparr>fs := Dir []\<rparr>)"
        and w = exOfflineWorld and version = "[]"]
    by (simp add: retCodePanic_def)
qed

subsection \<open>Listing by prefix\<close>

lemma starMatch_star: "starMatch ''*'' s"
  by (induction s) auto

lemma starMatch_skip: "starMatch q s \<Longrightarrow> starMatch (CHR ''*'' # q) s"
  by (cases s) auto

lemma starMatch_prefix: "prefix p n \<Longrightarrow> starMatch (p @ ''*'') n"
proof (induction p arbitrary: n)
  case Nil
  then show ?case
    using starMatch_star by simp
next
  case (Cons c p)
  then obtain ns where n: "n = c # ns" and pre: "prefix p ns"
    by (cases n) auto
  have ih: "starMatch (p @ ''*'') ns"
    using Cons.IH [OF pre] .
  show ?case
  proof (cases "c = CHR ''*''")
    case True
    have "starMatch (CHR ''*'' # (p @ ''*'')) ns"
      using starMatch_skip [OF ih] .
    then show ?thesis
      using True n by simp
  next
    case False
    then show ?thesis
      using n ih by simp
  qed
qed

lemma printed_list_lines:
  "printed (foldl (listLine cur) w vs) = printed w @ map (listEvent cur) vs"
  by (induction vs arbitrary: w)
     (simp_all add: listLine_def listEvent_def colorGreen_def writeInfo_def)

lemma printed_list:
  "printed (list w pattern) =
     printed w @ map (listEvent (orEmpty (getCurrentDockerVersion w)))
       (getInstalledVersions w (pattern @ ''*''))"
  by (simp add: list_def Let_def printed_list_lines)

lemma getVersionDir_pattern:
  assumes "CHR ''/'' \<notin> set pattern"
  shows "getVersionDir w (pattern @ ''*'') = dvmDir w @ [''bin'', ''docker'', pattern @ ''*'']"
proof -
  have "last (pattern @ ''*'') = CHR ''*''"
    by simp
  then have "pattern @ ''*'' \<noteq> ''.''" "pattern @ ''*'' \<noteq> ''..''"
    by auto
  then show ?thesis
    using assms by (simp add: getVersionDir_def joinPath_component)
qed

lemma filepathGlob_pattern:
  assumes "plainRoot w" "\<not> hasOtherMeta pattern"
  shows "filepathGlob w (dvmDir w @ [''bin'', ''docker'', pattern @ ''*''])
    = globDir w (dvmDir w @ [''bin'', ''docker'']) (pattern @ ''*'')"
proof -
  have a: "\<not> list_ex hasOtherMeta (dvmDir w @ [''bin'', ''docker'', pattern @ ''*''])"
    using assms by (simp add: plainRoot_def hasOtherMeta_def)
  have b: "list_ex hasStar (dvmDir w @ [''bin'', ''docker'', pattern @ ''*''])"
    by (simp add: hasStar_def)
  have c: "\<not> list_ex hasStar (dvmDir w @ [''bin'', ''docker''])"
    using binRoot_plain [OF assms(1)] by simp
  have d: "butlast (dvmDir w @ [''bin'', ''docker'', pattern @ ''*'']) = dvmDir w @ [''bin'', ''docker'']"
    by (simp add: butlast_append)
  have e: "last (dvmDir w @ [''bin'', ''docker'', pattern @ ''*'']) = pattern @ ''*''"
    by simp
  show ?thesis
    by (subst filepathGlob.simps) (simp only: a b c d e Let_def if_True if_False not_True_eq_False not_False_eq_True list.map concat.simps append_Nil2)
qed

lemma dirNames_isDir: "n \<in> set (dirNames t p) \<Longrightarrow> isDir t p"
  unfolding dirNames_def isDir_def
  by (cases "lookup t p") (auto split: node.splits)

lemma installed_by_prefix:
  assumes "plainRoot w" "CHR ''/'' \<notin> set pattern" "\<not> hasOtherMeta pattern"
    and "n \<in> set (dirNames (fs w) (dvmDir w @ [''bin'', ''docker'']))"
    and "prefix pattern n"
  shows "set (installedLabel w (dvmDir w @ [''bin'', ''docker'', n]))
    \<subseteq> set (getInstalledVersions w (pattern @ ''*''))"
proof -
  have g: "dvmDir w @ [''bin'', ''docker'', n]
      \<in> set (filepathGlob w (getVersionDir w (pattern @ ''*'')))"
    unfolding getVersionDir_pattern [OF assms(2)] filepathGlob_pattern [OF assms(1,3)]
    using assms(4,5) dirNames_isDir [OF assms(4)] starMatch_prefix [OF assms(5)]
    by (simp add: globDir_def)
  show ?thesis
    unfolding getInstalledVersions_def Let_def
    using g by (auto split: option.splits)
qed

lemma listing_lines:
  "listing w pattern =
     map (listEvent (orEmpty (getCurrentDockerVersion w)))
       (getInstalledVersions w (pattern @ ''*''))"
  by (simp add: listing_def printed_list)

lemma listed_iff:
  "listed w pattern label = (label \<in> set (getInstalledVersions w (pattern @ ''*'')))"
  by (auto simp: listed_def listing_lines listEvent_def image_iff)

lemma listed_installed:
  "label \<in> set (getInstalledVersions w (pattern @ ''*'')) \<Longrightarrow> listed w pattern label"
  by (simp add: listed_iff)

lemma installed_from_pattern:
  assumes "plainRoot w" "CHR ''/'' \<notin> set pattern" "\<not> hasOtherMeta pattern"
    and "label \<in> set (getInstalledVersions w (pattern @ ''*''))"
  shows "(\<exists>n \<in> set (dirNames (fs w) (dvmDir w @ [''bin'', ''docker''])).
            label \<in> set (installedLabel w (dvmDir w @ [''bin'', ''docker'', n])))
    \<or> (\<exists>sv. label = ''system ('' @ sv @ '')'')"
proof -
  have g: "set (filepathGlob w (getVersionDir w (pattern @ ''*'')))
      \<subseteq> (\<lambda>n. dvmDir w @ [''bin'', ''docker'', n])
          ` set (dirNames (fs w) (dvmDir w @ [''bin'', ''docker'']))"
    unfolding getVersionDir_pattern [OF assms(2)] filepathGlob_pattern [OF assms(1,3)]
    by (auto simp: globDir_def)
  have "label \<in> set (concat (map (installedLabel w)
          (filepathGlob w (getVersionDir w (pattern @ ''*'')))))
      \<or> (\<exists>sv. label = ''system ('' @ sv @ '')'')"
    using assms(4) unfolding getInstalledVersions_def Let_def
    by (auto split: if_splits option.splits)
  then show ?thesis
    using g by auto
qed

lemma unprobed_label:
  "getExperimentalDockerVersion w = None
     \<Longrightarrow> label \<in> set (installedLabel w (base @ [n])) \<Longrightarrow> label = n \<and> n \<noteq> ''experimental''"
  by (auto simp: installedLabel_def baseName_def split: if_splits)

text \<open>
  C10, as the specification states it, fails: after an interrupted install the directory
  \<open>experimental\<close> exists and its name begins with \<open>exp\<close>, yet \<open>list\<close> of
  \<open>exp\<close> prints nothing, because the binary's version cannot be probed.
\<close>

theorem list_omits_experimental:
  "''experimental'' \<in> set (dirNames (fs exHalfWorld) [''dvm'', ''bin'', ''docker''])
   \<and> take 3 ''experimental'' = ''exp''
   \<and> printed (list exHalfWorld ''exp'') = []"
  by code_simp

text \<open>
  C10, amended. Under a plain managed root and for a pattern without a path separator,
  \<open>?\<close>, \<open>[\<close> or a backslash, every directory of the managed bin root whose name
  begins with the pattern is listed under its own name, unless it is \<open>experimental\<close>;
  \<open>experimental\<close> is listed as \<open>experimental (<probed version>)\<close> when its binary's
  version can be probed, and is left out otherwise: the bare name is then not listed, and
  every line of the listing is for another directory of the bin root, under its name, or
  for the system docker.
\<close>

theorem list_by_prefix:
  assumes "plainRoot w" "CHR ''/'' \<notin> set pattern" "\<not> hasOtherMeta pattern"
    and "n \<in> set (dirNames (fs w) (dvmDir w @ [''bin'', ''docker'']))"
    and "prefix pattern n"
  shows "(n \<noteq> ''experimental'' \<longrightarrow> listed w pattern n)
    \<and> (\<forall>ev. n = ''experimental'' \<and> getExperimentalDockerVersion w = Some ev
          \<longrightarrow> listed w pattern (''experimental ('' @ ev @ '')''))
    \<and> (n = ''experimental'' \<and> getExperimentalDockerVersion w = None
          \<longrightarrow> \<not> listed w pattern ''experimental''
              \<and> (\<forall>label. listed w pattern label \<longrightarrow>
                    (label \<in> set (dirNames (fs w) (dvmDir w @ [''bin'', ''docker'']))
                     \<and> label \<noteq> ''experimental'')
                    \<or> (\<exists>sv. label = ''system ('' @ sv @ '')'')))"
proof -
  note sub = installed_by_prefix [OF assms]
  have out: "(label \<in> set (dirNames (fs w) (dvmDir w @ [''bin'', ''docker'']))
        \<and> label \<noteq> ''experimental'')
      \<or> (\<exists>sv. label = ''system ('' @ sv @ '')'')"
    if none: "getExperimentalDockerVersion w = None" and l: "listed w pattern label" for label
  proof -
    have "label \<in> set (getInstalledVersions w (pattern @ ''*''))"
      using l by (simp add: listed_iff)
    then show ?thesis
      using installed_from_pattern [OF assms(1,2,3)] unprobed_label [OF none, of label "dvmDir w @ [''bin'', ''docker'']"]
      by fastforce
  qed
  have bare: "\<not> listed w pattern ''experimental''"
    if none: "getExperimentalDockerVersion w = None"
    using out [OF none, of "''experimental''"] by auto
  show ?thesis
  proof (intro conjI impI allI)
    assume "n \<noteq> ''experimental''"
    then have "n \<in> set (installedLabel w (dvmDir w @ [''bin'', ''docker'', n]))"
      by (simp add: installedLabel_def baseName_def)
    then show "listed w pattern n"
      using sub listed_installed by blast
  next
    fix ev
    assume "n = ''experimental'' \<and> getExperimentalDockerVersion w = Some ev"
    then have "''experimental ('' @ ev @ '')''
        \<in> set (installedLabel w (dvmDir w @ [''bin'', ''docker'', n]))"
      by (simp add: installedLabel_def baseName_def)
    then show "listed w pattern (''experimental ('' @ ev @ '')'')"
      using sub listed_installed by blast
  next
    assume "n = ''experimental'' \<and> getExperimentalDockerVersion w = None"
    then show "\<not> listed w pattern ''experimental''"
      using bare by blast
  next
    fix label
    assume "n = ''experimental'' \<and> getExperimentalDockerVersion w = None"
      and "listed w pattern label"
    then show "(label \<in> set (dirNames (fs w) (dvmDir w @ [''bin'', ''docker'']))
          \<and> label \<noteq> ''experimental'')
        \<or> (\<exists>sv. label = ''system ('' @ sv @ '')'')"
      using out by blast
  qed
qed

theorem list_by_prefix_witness:
  "plainRoot exWorld \<and> CHR ''/'' \<notin> set ''1.1'' \<and> \<not> hasOtherMeta ''1.1''
   \<and> ''1.10.0'' \<in> set (dirNames (fs exWorld) (dvmDir exWorld @ [''bin'', ''docker'']))
   \<and> prefix ''1.1'' ''1.10.0''
   \<and> listed exWorld ''1.1'' ''1.10.0''
   \<and> plainRoot exHalfWorld \<and> CHR ''/'' \<notin> set ''exp'' \<and> \<not> hasOtherMeta ''exp''
   \<and> ''experimental''
       \<in> set (dirNames (fs exHalfWorld) (dvmDir exHalfWorld @ [''bin'', ''docker'']))
   \<and> prefix ''exp'' ''experimental''
   \<and> getExperimentalDockerVersion exHalfWorld = None
   \<and> \<not> listed exHalfWorld ''exp'' ''experimental''"
proof -
  have r: "plainRoot exWorld"
    by code_simp
  have p: "CHR ''/'' \<notin> set ''1.1''" "\<not> hasOtherMeta ''1.1''"
    by code_simp+
  have n: "''1.10.0'' \<in> set (dirNames (fs exWorld) (dvmDir exWorld @ [''bin'', ''docker'']))"
    by code_simp
  have x: "prefix ''1.1'' ''1.10.0''"
    by simp
  have r': "plainRoot exHalfWorld"
    by code_simp
  have p': "CHR ''/'' \<notin> set ''exp''" "\<not> hasOtherMeta ''exp''"
    by code_simp+
  have n': "''experimental''
      \<in> set (dirNames (fs exHalfWorld) (dvmDir exHalfWorld @ [''bin'', ''docker'']))"
    by code_simp
  have x': "prefix ''exp'' ''experimental''"
    by simp
  have e: "getExperimentalDockerVersion exHalfWorld = None"
    by code_simp
  show ?thesis
    using r p n x r' p' n' x' e list_by_prefix [OF r p n x] list_by_prefix [OF r' p' n' x']
    by simp
qed

end
